theory Spec2Isabelle
  imports Complex_Main "HOL-Library.Log_Nat"
begin

text \<open>
  The routes of the review service (users, items, reviews, comments) and its
  authentication middleware, as functions from a request and the store to a response and
  the store. A handler's \<open>try\<close>/\<open>catch\<close> is a case distinction on the result of each call
  that can throw; the libraries the routes call (Prisma Client, zod, jsonwebtoken, bcrypt)
  are not part of the repository and are modelled by what the routes rely on.
\<close>

section \<open>JavaScript values\<close>

text \<open>
  A JavaScript number is modelled by the rational it denotes (every finite double is a
  rational); the values that occur in request handling are parsed JSON.
\<close>

type_synonym number = rat

datatype json =
    JNull
  | JBool bool
  | JNum number
  | JStr string
  | JArr "json list"
  | JObj "(string \<times> json) list"

text \<open>
  A string of the language is a sequence of UTF-16 code units. The segment of the path
  that a route reads as \<open>:id\<close> is kept as such a sequence; the strings of bodies and
  queries are \<open>string\<close>s, a \<open>char\<close> being a code unit below 256, and \<open>units\<close> gives their
  code units.
\<close>

definition units :: "string \<Rightarrow> nat list" where
  "units s = map of_char s"

text \<open>Property access \<open>obj[k]\<close>; \<open>None\<close> is \<open>undefined\<close>. A repeated key keeps its last value.\<close>

fun field :: "json \<Rightarrow> string \<Rightarrow> json option" where
  "field (JObj kvs) k = map_of (rev kvs) k"
| "field _ k = None"

subsection \<open>\<open>parseInt(s, 10)\<close>\<close>

text \<open>
  The white space that \<open>parseInt\<close> skips: the WhiteSpace and LineTerminator code points of
  the language (tab, line feed, vertical tab, form feed, carriage return, space, no-break
  space, the other space separators of Unicode, line and paragraph separator, byte order
  mark).
\<close>

definition is_ws :: "nat \<Rightarrow> bool" where
  "is_ws c \<longleftrightarrow>
     List.member [0x09, 0x0A, 0x0B, 0x0C, 0x0D, 0x20, 0xA0, 0x1680, 0x2028, 0x2029, 0x202F,
                  0x205F, 0x3000, 0xFEFF] c
     \<or> (0x2000 \<le> c \<and> c \<le> 0x200A)"

definition is_digit :: "nat \<Rightarrow> bool" where
  "is_digit c \<longleftrightarrow> 48 \<le> c \<and> c \<le> 57"

definition digit_val :: "nat \<Rightarrow> int" where
  "digit_val c = int c - 48"

definition digits_val :: "nat list \<Rightarrow> int" where
  "digits_val ds = foldl (\<lambda>acc c. 10 * acc + digit_val c) 0 ds"

text \<open>
  \<open>parseInt\<close> skips leading white space, reads an optional sign (\<open>-\<close> is 45, \<open>+\<close> is 43)
  and the longest run of decimal digits, and ignores what follows; \<open>None\<close> is \<open>NaN\<close>. The
  result is the integer read: as a double it is exact below \<open>2^53\<close>, and the routes pass
  it only to the client, which refuses every id from \<open>2^31\<close> on alike.
\<close>

definition parseInt :: "nat list \<Rightarrow> int option" where
  "parseInt s =
     (let t = dropWhile is_ws s;
          neg = (case t of c # _ \<Rightarrow> c = 45 | [] \<Rightarrow> False);
          r = (case t of c # cs \<Rightarrow> if c = 45 \<or> c = 43 then cs else t | [] \<Rightarrow> t);
          ds = takeWhile is_digit r
      in if ds = [] then None
         else Some (if neg then - digits_val ds else digits_val ds))"

subsection \<open>Arithmetic on doubles\<close>

text \<open>
  \<open>fl q\<close> is the double nearest to \<open>q\<close> (ties to the even significand of 53 bits), for
  \<open>q\<close> in the range of normal doubles; every arithmetic operator of the routes is the
  exact operation followed by \<open>fl\<close>.
\<close>

definition pow2 :: "int \<Rightarrow> rat" where
  "pow2 k = (if 0 \<le> k then 2 ^ nat k else 1 / 2 ^ nat (- k))"

text \<open>For \<open>0 < q\<close>, the exponent \<open>k\<close> with \<open>pow2 k \<le> q < pow2 (k + 1)\<close>.\<close>

definition ilog2 :: "rat \<Rightarrow> int" where
  "ilog2 q = (if 1 \<le> q then bitlen \<lfloor>q\<rfloor> - 1 else - bitlen (\<lceil>1 / q\<rceil> - 1))"

definition round_even :: "rat \<Rightarrow> int" where
  "round_even r =
     (let f = \<lfloor>r\<rfloor>; d = r - of_int f
      in if d < 1 / 2 then f
         else if 1 / 2 < d then f + 1
         else if even f then f else f + 1)"

definition fl :: "rat \<Rightarrow> number" where
  "fl q =
     (if q = 0 then 0
      else (let u = pow2 (ilog2 \<bar>q\<bar> - 52)
            in sgn q * of_int (round_even (\<bar>q\<bar> / u)) * u))"

definition js_add :: "number \<Rightarrow> number \<Rightarrow> number" where
  "js_add a b = fl (a + b)"

definition js_sub :: "number \<Rightarrow> number \<Rightarrow> number" where
  "js_sub a b = fl (a - b)"

definition js_mul :: "number \<Rightarrow> number \<Rightarrow> number" where
  "js_mul a b = fl (a * b)"

text \<open>\<open>a / b\<close> for \<open>b \<noteq> 0\<close>.\<close>

definition js_div :: "number \<Rightarrow> number \<Rightarrow> number" where
  "js_div a b = fl (a / b)"

text \<open>
  \<open>x.toFixed(2)\<close>, for \<open>\<bar>x\<bar> < 10^21\<close>, prints \<open>n / 100\<close> for the integer \<open>n\<close> nearest
  to \<open>100 x\<close>, the one of larger magnitude at a tie; \<open>toFixed2 x\<close> is that \<open>n\<close>, and
  \<open>parseFloat\<close> reads the printed decimal back as the nearest double.
\<close>

definition toFixed2 :: "number \<Rightarrow> int" where
  "toFixed2 x = (if 0 \<le> x then \<lfloor>100 * x + 1 / 2\<rfloor> else - \<lfloor>100 * (- x) + 1 / 2\<rfloor>)"

definition parseFloat_toFixed2 :: "number \<Rightarrow> number" where
  "parseFloat_toFixed2 x = fl (of_int (toFixed2 x) / 100)"

text \<open>
  \<open>Number(s)\<close> for a string of decimal digits: the double nearest to the integer, or
  \<open>Infinity\<close>, here \<open>None\<close>, from \<open>2^1024 - 2^970\<close> on.
\<close>

definition Number_digits :: "string \<Rightarrow> number option" where
  "Number_digits s =
     (if of_int (digits_val (units s)) < (2::rat) ^ 1024 - 2 ^ 970
      then Some (fl (of_int (digits_val (units s))))
      else None)"

subsection \<open>The zod schema combinators the routes use\<close>

datatype issue = Issue "string list"

fun z_string :: "json option \<Rightarrow> string option" where
  "z_string (Some (JStr s)) = Some s"
| "z_string _ = None"

fun z_number :: "json option \<Rightarrow> number option" where
  "z_number (Some (JNum q)) = Some q"
| "z_number _ = None"

definition refine :: "('a \<Rightarrow> bool) \<Rightarrow> 'a option \<Rightarrow> 'a option" where
  "refine P r = (case r of Some v \<Rightarrow> if P v then Some v else None | None \<Rightarrow> None)"

definition z_optional :: "(json option \<Rightarrow> 'a option) \<Rightarrow> json option \<Rightarrow> 'a option option" where
  "z_optional p j = (case j of None \<Rightarrow> Some None | Some _ \<Rightarrow> map_option Some (p j))"

text \<open>\<open>schema.default(d)\<close>: an absent input is replaced by \<open>d\<close>, then parsed by \<open>schema\<close>.\<close>

definition z_default :: "json \<Rightarrow> (json option \<Rightarrow> 'a option) \<Rightarrow> json option \<Rightarrow> 'a option" where
  "z_default d p j = p (Some (case j of None \<Rightarrow> d | Some v \<Rightarrow> v))"

definition chk :: "string \<Rightarrow> 'a option \<Rightarrow> issue list" where
  "chk k r = (case r of None \<Rightarrow> [Issue [k]] | Some _ \<Rightarrow> [])"

fun is_object :: "json \<Rightarrow> bool" where
  "is_object (JObj _) = True"
| "is_object _ = False"

section \<open>The data model (prisma/schema.prisma)\<close>

record user =
  u_id :: int
  u_username :: string
  u_email :: string
  u_password :: string
  u_createdAt :: nat

record item =
  i_id :: int
  i_name :: string
  i_description :: "string option"
  i_category :: "string option"
  i_createdAt :: nat

record review =
  r_id :: int
  r_rating :: int
  r_content :: string
  r_userId :: int
  r_itemId :: int
  r_createdAt :: nat
  r_updatedAt :: nat

record comment =
  c_id :: int
  c_content :: string
  c_userId :: int
  c_reviewId :: int
  c_createdAt :: nat
  c_updatedAt :: nat

text \<open>
  The store: the four tables in insertion order and the sequences behind the
  \<open>autoincrement()\<close> keys of the two tables the modelled routes insert into.
\<close>

record db =
  users :: "user list"
  items :: "item list"
  reviews :: "review list"
  comments :: "comment list"
  user_seq :: int
  review_seq :: int

subsection \<open>Prisma Client operations\<close>

text \<open>
  The operations are modelled from the schema: a table is the list of its rows, and an
  operation fails where the schema makes it fail (the type of a column, a unique index, a
  relation). A lost connection or any other failure of the database itself is outside the
  model.
\<close>

datatype prisma_error = ValidationError | OutOfRange | UniqueConstraint | RecordNotFound

text \<open>
  A number given where the schema has an \<open>Int\<close> is converted to an integer by dropping its
  fraction (\<open>4.5\<close> is stored as \<open>4\<close>). An \<open>Int\<close> column is a 32-bit signed integer, and
  an argument for such a column that does not fit is refused; \<open>skip\<close> and \<open>take\<close> are not
  columns, and are refused only when they do not fit 64 bits.
\<close>

definition trunc :: "number \<Rightarrow> int" where
  "trunc q = (if 0 \<le> q then \<lfloor>q\<rfloor> else \<lceil>q\<rceil>)"

definition prisma_Int :: "number \<Rightarrow> prisma_error + int" where
  "prisma_Int q =
     (if trunc q < - (2 ^ 31) \<or> 2 ^ 31 \<le> trunc q then Inl OutOfRange
      else Inr (trunc q))"

definition prisma_Int64 :: "number \<Rightarrow> prisma_error + int" where
  "prisma_Int64 q =
     (if trunc q < - (2 ^ 63) \<or> 2 ^ 63 \<le> trunc q then Inl OutOfRange
      else Inr (trunc q))"

definition user_findUnique_id :: "db \<Rightarrow> number \<Rightarrow> prisma_error + user option" where
  "user_findUnique_id d q =
     (case prisma_Int q of Inl e \<Rightarrow> Inl e
      | Inr i \<Rightarrow> Inr (find (\<lambda>u. u_id u = i) (users d)))"

definition user_findUnique_email :: "db \<Rightarrow> string \<Rightarrow> user option" where
  "user_findUnique_email d e = find (\<lambda>u. u_email u = e) (users d)"

definition item_findUnique :: "db \<Rightarrow> number \<Rightarrow> prisma_error + item option" where
  "item_findUnique d q =
     (case prisma_Int q of Inl e \<Rightarrow> Inl e
      | Inr i \<Rightarrow> Inr (find (\<lambda>x. i_id x = i) (items d)))"

definition review_findUnique :: "db \<Rightarrow> number \<Rightarrow> prisma_error + review option" where
  "review_findUnique d q =
     (case prisma_Int q of Inl e \<Rightarrow> Inl e
      | Inr i \<Rightarrow> Inr (find (\<lambda>r. r_id r = i) (reviews d)))"

definition comment_findUnique :: "db \<Rightarrow> number \<Rightarrow> prisma_error + comment option" where
  "comment_findUnique d q =
     (case prisma_Int q of Inl e \<Rightarrow> Inl e
      | Inr i \<Rightarrow> Inr (find (\<lambda>c. c_id c = i) (comments d)))"

text \<open>\<open>include: { user: { select: { id: true, username: true } } }\<close>\<close>

definition user_ref :: "db \<Rightarrow> int \<Rightarrow> (int \<times> string) option" where
  "user_ref d uid = map_option (\<lambda>u. (u_id u, u_username u)) (find (\<lambda>u. u_id u = uid) (users d))"

text \<open>
  \<open>review.update\<close> writes the given data and, by \<open>@updatedAt\<close>, the time of the write into
  the row of the given id, and returns that row; \<open>review.delete\<close> removes the row and, by
  \<open>onDelete: Cascade\<close>, its comments.
\<close>

definition review_update ::
  "db \<Rightarrow> number \<Rightarrow> number \<Rightarrow> string \<Rightarrow> nat \<Rightarrow> prisma_error + (review \<times> db)" where
  "review_update d q rating content' now =
     (case prisma_Int q of Inl e \<Rightarrow> Inl e
      | Inr i \<Rightarrow>
         (case prisma_Int rating of Inl e \<Rightarrow> Inl e
          | Inr rt \<Rightarrow>
             (let set_data = (\<lambda>r. r\<lparr>r_rating := rt, r_content := content', r_updatedAt := now\<rparr>)
              in case find (\<lambda>r. r_id r = i) (reviews d) of None \<Rightarrow> Inl RecordNotFound
                 | Some r \<Rightarrow>
                     Inr (set_data r,
                          d\<lparr>reviews := map (\<lambda>x. if r_id x = i then set_data x else x) (reviews d)\<rparr>))))"

definition review_delete :: "db \<Rightarrow> number \<Rightarrow> prisma_error + db" where
  "review_delete d q =
     (case prisma_Int q of Inl e \<Rightarrow> Inl e
      | Inr i \<Rightarrow>
         (case find (\<lambda>r. r_id r = i) (reviews d) of None \<Rightarrow> Inl RecordNotFound
          | Some _ \<Rightarrow>
             Inr (d\<lparr>reviews := filter (\<lambda>r. r_id r \<noteq> i) (reviews d),
                    comments := filter (\<lambda>c. c_reviewId c \<noteq> i) (comments d)\<rparr>)))"

definition comment_update ::
  "db \<Rightarrow> number \<Rightarrow> string \<Rightarrow> nat \<Rightarrow> prisma_error + (comment \<times> db)" where
  "comment_update d q content' now =
     (case prisma_Int q of Inl e \<Rightarrow> Inl e
      | Inr i \<Rightarrow>
         (let set_data = (\<lambda>c. c\<lparr>c_content := content', c_updatedAt := now\<rparr>)
          in case find (\<lambda>c. c_id c = i) (comments d) of None \<Rightarrow> Inl RecordNotFound
             | Some c \<Rightarrow>
                 Inr (set_data c,
                      d\<lparr>comments := map (\<lambda>x. if c_id x = i then set_data x else x) (comments d)\<rparr>)))"

definition comment_delete :: "db \<Rightarrow> number \<Rightarrow> prisma_error + db" where
  "comment_delete d q =
     (case prisma_Int q of Inl e \<Rightarrow> Inl e
      | Inr i \<Rightarrow>
         (case find (\<lambda>c. c_id c = i) (comments d) of None \<Rightarrow> Inl RecordNotFound
          | Some _ \<Rightarrow> Inr (d\<lparr>comments := filter (\<lambda>c. c_id c \<noteq> i) (comments d)\<rparr>)))"

definition review_findUnique_userId_itemId ::
  "db \<Rightarrow> number \<Rightarrow> number \<Rightarrow> prisma_error + review option" where
  "review_findUnique_userId_itemId d userId itemId =
     (case prisma_Int userId of Inl e \<Rightarrow> Inl e
      | Inr uid \<Rightarrow>
         (case prisma_Int itemId of Inl e \<Rightarrow> Inl e
          | Inr iid \<Rightarrow> Inr (find (\<lambda>r. r_userId r = uid \<and> r_itemId r = iid) (reviews d))))"

text \<open>
  Inserts. An id is drawn from the table's sequence (\<open>autoincrement()\<close>, a 32-bit serial)
  before the row is checked against the unique indexes (\<open>@unique\<close> on \<open>username\<close> and
  on \<open>email\<close>, \<open>@@unique([userId, itemId])\<close>): an insert refused by an index adds no row
  but has used up the id, so a failed call returns the store too. The rows named by
  \<open>connect\<close> are read before the insert, which is not attempted when one is missing.
\<close>

definition user_create ::
  "db \<Rightarrow> string \<Rightarrow> string \<Rightarrow> string \<Rightarrow> nat \<Rightarrow> (prisma_error \<times> db) + (user \<times> db)" where
  "user_create d username email password t =
     (if 2 ^ 31 \<le> user_seq d then Inl (OutOfRange, d)
      else if list_ex (\<lambda>u. u_username u = username \<or> u_email u = email) (users d)
      then Inl (UniqueConstraint, d\<lparr>user_seq := user_seq d + 1\<rparr>)
      else
        (let u = \<lparr>u_id = user_seq d, u_username = username, u_email = email,
                  u_password = password, u_createdAt = t\<rparr>
         in Inr (u, d\<lparr>users := users d @ [u], user_seq := user_seq d + 1\<rparr>)))"

definition review_create ::
  "db \<Rightarrow> number \<Rightarrow> string \<Rightarrow> number \<Rightarrow> number \<Rightarrow> nat \<Rightarrow> (prisma_error \<times> db) + (review \<times> db)" where
  "review_create d rating content' userId itemId t =
     (case prisma_Int rating of Inl e \<Rightarrow> Inl (e, d)
      | Inr rt \<Rightarrow>
         (case prisma_Int userId of Inl e \<Rightarrow> Inl (e, d)
          | Inr uid \<Rightarrow>
             (case prisma_Int itemId of Inl e \<Rightarrow> Inl (e, d)
              | Inr iid \<Rightarrow>
                 if list_ex (\<lambda>u. u_id u = uid) (users d) \<and> list_ex (\<lambda>x. i_id x = iid) (items d)
                 then
                   (if 2 ^ 31 \<le> review_seq d then Inl (OutOfRange, d)
                    else if list_ex (\<lambda>r. r_userId r = uid \<and> r_itemId r = iid) (reviews d)
                    then Inl (UniqueConstraint, d\<lparr>review_seq := review_seq d + 1\<rparr>)
                    else
                      (let r = \<lparr>r_id = review_seq d, r_rating = rt, r_content = content',
                                r_userId = uid, r_itemId = iid, r_createdAt = t, r_updatedAt = t\<rparr>
                       in Inr (r, d\<lparr>reviews := reviews d @ [r], review_seq := review_seq d + 1\<rparr>)))
                 else Inl (RecordNotFound, d))))"

text \<open>
  \<open>skip\<close> and \<open>take\<close> of \<open>findMany\<close>: a negative \<open>skip\<close> is refused; a negative \<open>take\<close>
  counts from the end.
\<close>

definition window :: "number \<Rightarrow> number \<Rightarrow> 'a list \<Rightarrow> prisma_error + 'a list" where
  "window skip tk rows =
     (case prisma_Int64 skip of Inl e \<Rightarrow> Inl e
      | Inr sk \<Rightarrow>
         (case prisma_Int64 tk of Inl e \<Rightarrow> Inl e
          | Inr n \<Rightarrow>
             if sk < 0 then Inl ValidationError
             else Inr (if 0 \<le> n then take (nat n) (drop (nat sk) rows)
                       else rev (take (nat (- n)) (drop (nat sk) (rev rows))))))"

text \<open>
  \<open>item.findMany({ where, skip, take, include: { reviews: { select: { rating: true } } } })\<close>:
  the matching items in table order, each with the ratings of its reviews.
\<close>

definition item_findMany ::
  "db \<Rightarrow> (item \<Rightarrow> bool) \<Rightarrow> number \<Rightarrow> number \<Rightarrow> prisma_error + (item \<times> int list) list" where
  "item_findMany d wh skip tk =
     (case window skip tk (filter wh (items d)) of Inl e \<Rightarrow> Inl e
      | Inr page \<Rightarrow>
          Inr (map (\<lambda>x. (x, map r_rating (filter (\<lambda>r. r_itemId r = i_id x) (reviews d)))) page))"

text \<open>
  \<open>comment.findMany({ where: { reviewId }, skip, take, include: { user }, orderBy:
  { createdAt: 'asc' } })\<close>; comments of one creation time keep their table order.
\<close>

definition comment_findMany ::
  "db \<Rightarrow> number \<Rightarrow> number \<Rightarrow> number \<Rightarrow> prisma_error + (comment \<times> (int \<times> string) option) list" where
  "comment_findMany d reviewId skip tk =
     (case prisma_Int reviewId of Inl e \<Rightarrow> Inl e
      | Inr rid \<Rightarrow>
         (case window skip tk (sort_key c_createdAt (filter (\<lambda>c. c_reviewId c = rid) (comments d))) of
            Inl e \<Rightarrow> Inl e
          | Inr page \<Rightarrow> Inr (map (\<lambda>c. (c, user_ref d (c_userId c))) page)))"

section \<open>Requests, responses and the libraries around the routes\<close>

record request =
  authorization :: "string option"
  params_id :: "nat list"
  query :: json
  body :: json

text \<open>An item of the list response: the item's columns and the computed average.\<close>

record item_out =
  o_id :: int
  o_name :: string
  o_description :: "string option"
  o_category :: "string option"
  o_createdAt :: nat
  o_averageRating :: "number option"

type_synonym user_sel = "(int \<times> string) option"

datatype payload =
    ErrorMsg string
  | ZodErrors "issue list"
  | Message string
  | UserOut int string string nat
  | Token string
  | ReviewOut review user_sel
  | CommentOut comment user_sel
  | ItemsPage number number "item_out list"
  | CommentsPage number number "(comment \<times> user_sel) list"
  | ItemDetail item "(review \<times> user_sel \<times> (comment \<times> user_sel) list) list" "number option"

datatype response = Response nat payload

text \<open>
  What the routes take from jsonwebtoken, bcrypt, zod's e-mail pattern and the clock, at
  the time of one request. \<open>jwt_verify t\<close> is the \<open>id\<close> of the decoded payload, or
  \<open>None\<close> where \<open>jwt.verify\<close> throws.
\<close>

record env =
  jwt_verify :: "string \<Rightarrow> int option"
  jwt_sign :: "int \<Rightarrow> string"
  bcrypt_hash :: "string \<Rightarrow> string"
  bcrypt_compare :: "string \<Rightarrow> string \<Rightarrow> bool"
  is_email :: "string \<Rightarrow> bool"
  now :: nat

section \<open>middleware/auth.js\<close>

text \<open>\<open>s.split(' ')\<close>\<close>

fun split_space :: "string \<Rightarrow> string list" where
  "split_space [] = [[]]"
| "split_space (c # cs) =
     (if c = CHR '' '' then [] # split_space cs
      else (case split_space cs of w # ws \<Rightarrow> (c # w) # ws | [] \<Rightarrow> [[c]]))"

text \<open>\<open>authHeader && authHeader.split(' ')[1]\<close>, with \<open>None\<close> for every falsy result.\<close>

definition bearer :: "string option \<Rightarrow> string option" where
  "bearer h =
     (case h of None \<Rightarrow> None
      | Some s \<Rightarrow>
         (case split_space s of
            _ # t # _ \<Rightarrow> if t = [] then None else Some t
          | _ \<Rightarrow> None))"

datatype gate = Next user | Reject response

definition authenticateToken :: "env \<Rightarrow> request \<Rightarrow> db \<Rightarrow> gate \<times> db" where
  "authenticateToken e req d =
     (case bearer (authorization req) of
        None \<Rightarrow> (Reject (Response 401 (ErrorMsg ''Access token missing'')), d)
      | Some token \<Rightarrow>
         (case jwt_verify e token of
            None \<Rightarrow> (Reject (Response 403 (ErrorMsg ''Invalid or expired token'')), d)
          | Some did \<Rightarrow>
             (case user_findUnique_id d (of_int did) of
                Inl _ \<Rightarrow> (Reject (Response 403 (ErrorMsg ''Invalid or expired token'')), d)
              | Inr None \<Rightarrow> (Reject (Response 401 (ErrorMsg ''User not found'')), d)
              | Inr (Some u) \<Rightarrow> (Next u, d))))"

text \<open>A route registered as \<open>router.METHOD(path, authenticateToken, handler)\<close>.\<close>

definition authenticated ::
  "(env \<Rightarrow> user \<Rightarrow> request \<Rightarrow> db \<Rightarrow> response \<times> db) \<Rightarrow> env \<Rightarrow> request \<Rightarrow> db \<Rightarrow> response \<times> db" where
  "authenticated h e req d =
     (case authenticateToken e req d of
        (Reject r, d') \<Rightarrow> (r, d')
      | (Next u, d') \<Rightarrow> h e u req d')"

section \<open>api/reviews/routes.js\<close>

text \<open>\<open>router.post('/', authenticateToken, ...)\<close>: create a review.\<close>

definition createReviewSchema :: "json \<Rightarrow> issue list + (number \<times> number \<times> string)" where
  "createReviewSchema b =
     (if \<not> is_object b then Inl [Issue []]
      else
        (let itemId = z_number (field b ''itemId'');
             rating = refine (\<lambda>q. q \<le> 5) (refine (\<lambda>q. 1 \<le> q) (z_number (field b ''rating'')));
             content = refine (\<lambda>s. 1 \<le> length s) (z_string (field b ''content''))
         in case (itemId, rating, content) of
              (Some i, Some r, Some c) \<Rightarrow> Inr (i, r, c)
            | _ \<Rightarrow> Inl (chk ''itemId'' itemId @ chk ''rating'' rating @ chk ''content'' content)))"

definition reviews_post_handler :: "env \<Rightarrow> user \<Rightarrow> request \<Rightarrow> db \<Rightarrow> response \<times> db" where
  "reviews_post_handler e u req d =
     (case createReviewSchema (body req) of
        Inl issues \<Rightarrow> (Response 400 (ZodErrors issues), d)
      | Inr (itemId, rating, content) \<Rightarrow>
         (case review_findUnique_userId_itemId d (of_int (u_id u)) itemId of
            Inl _ \<Rightarrow> (Response 500 (ErrorMsg ''Internal server error''), d)
          | Inr (Some existingReview) \<Rightarrow>
              (Response 400 (ErrorMsg ''You have already reviewed this item.''), d)
          | Inr None \<Rightarrow>
             (case review_create d rating content (of_int (u_id u)) itemId (now e) of
                Inl (_, d') \<Rightarrow> (Response 500 (ErrorMsg ''Internal server error''), d')
              | Inr (review, d') \<Rightarrow>
                  (Response 201 (ReviewOut review (user_ref d' (r_userId review))), d'))))"

definition reviews_post :: "env \<Rightarrow> request \<Rightarrow> db \<Rightarrow> response \<times> db" where
  "reviews_post = authenticated reviews_post_handler"

text \<open>\<open>router.put('/:id', authenticateToken, ...)\<close>: update a review.\<close>

definition updateReviewSchema :: "json \<Rightarrow> issue list + (number option \<times> string option)" where
  "updateReviewSchema b =
     (if \<not> is_object b then Inl [Issue []]
      else
        (let rating = z_optional (\<lambda>j. refine (\<lambda>q. q \<le> 5) (refine (\<lambda>q. 1 \<le> q) (z_number j)))
                        (field b ''rating'');
             content = z_optional (\<lambda>j. refine (\<lambda>s. 1 \<le> length s) (z_string j))
                        (field b ''content'')
         in case (rating, content) of
              (Some r, Some c) \<Rightarrow> Inr (r, c)
            | _ \<Rightarrow> Inl (chk ''rating'' rating @ chk ''content'' content)))"

definition reviews_put_handler :: "env \<Rightarrow> user \<Rightarrow> request \<Rightarrow> db \<Rightarrow> response \<times> db" where
  "reviews_put_handler e u req d =
     (case parseInt (params_id req) of
        None \<Rightarrow> (Response 400 (ErrorMsg ''Invalid review ID''), d)
      | Some reviewId \<Rightarrow>
         (case updateReviewSchema (body req) of
            Inl issues \<Rightarrow> (Response 400 (ZodErrors issues), d)
          | Inr (rating, content) \<Rightarrow>
             (case review_findUnique d (of_int reviewId) of
                Inl _ \<Rightarrow> (Response 500 (ErrorMsg ''Internal server error''), d)
              | Inr None \<Rightarrow> (Response 404 (ErrorMsg ''Review not found''), d)
              | Inr (Some existingReview) \<Rightarrow>
                 if r_userId existingReview \<noteq> u_id u
                 then (Response 403 (ErrorMsg ''You are not authorized to update this review.''), d)
                 else
                   (case review_update d (of_int reviewId)
                           (case rating of Some r \<Rightarrow> r | None \<Rightarrow> of_int (r_rating existingReview))
                           (case content of Some c \<Rightarrow> c | None \<Rightarrow> r_content existingReview)
                           (now e) of
                      Inl _ \<Rightarrow> (Response 500 (ErrorMsg ''Internal server error''), d)
                    | Inr (updatedReview, d') \<Rightarrow>
                        (Response 200 (ReviewOut updatedReview (user_ref d' (r_userId updatedReview))),
                         d')))))"

text \<open>\<open>router.delete('/:id', authenticateToken, ...)\<close>: delete a review.\<close>

definition reviews_delete_handler :: "env \<Rightarrow> user \<Rightarrow> request \<Rightarrow> db \<Rightarrow> response \<times> db" where
  "reviews_delete_handler e u req d =
     (case parseInt (params_id req) of
        None \<Rightarrow> (Response 400 (ErrorMsg ''Invalid review ID''), d)
      | Some reviewId \<Rightarrow>
         (case review_findUnique d (of_int reviewId) of
            Inl _ \<Rightarrow> (Response 500 (ErrorMsg ''Internal server error''), d)
          | Inr None \<Rightarrow> (Response 404 (ErrorMsg ''Review not found''), d)
          | Inr (Some existingReview) \<Rightarrow>
             if r_userId existingReview \<noteq> u_id u
             then (Response 403 (ErrorMsg ''You are not authorized to delete this review.''), d)
             else
               (case review_delete d (of_int reviewId) of
                  Inl _ \<Rightarrow> (Response 500 (ErrorMsg ''Internal server error''), d)
                | Inr d' \<Rightarrow> (Response 200 (Message ''Review deleted successfully.''), d'))))"

text \<open>The two routes behind the gate.\<close>

definition reviews_put :: "env \<Rightarrow> request \<Rightarrow> db \<Rightarrow> response \<times> db" where
  "reviews_put = authenticated reviews_put_handler"

definition reviews_delete :: "env \<Rightarrow> request \<Rightarrow> db \<Rightarrow> response \<times> db" where
  "reviews_delete = authenticated reviews_delete_handler"

section \<open>api/comments/routes.js\<close>

text \<open>\<open>router.put('/:id', authenticateToken, ...)\<close>: update a comment.\<close>

definition updateCommentSchema :: "json \<Rightarrow> issue list + string" where
  "updateCommentSchema b =
     (if \<not> is_object b then Inl [Issue []]
      else
        (let content = refine (\<lambda>s. 1 \<le> length s) (z_string (field b ''content''))
         in case content of Some c \<Rightarrow> Inr c | None \<Rightarrow> Inl (chk ''content'' content)))"

definition comments_put_handler :: "env \<Rightarrow> user \<Rightarrow> request \<Rightarrow> db \<Rightarrow> response \<times> db" where
  "comments_put_handler e u req d =
     (case parseInt (params_id req) of
        None \<Rightarrow> (Response 400 (ErrorMsg ''Invalid comment ID.''), d)
      | Some commentId \<Rightarrow>
         (case updateCommentSchema (body req) of
            Inl issues \<Rightarrow> (Response 400 (ZodErrors issues), d)
          | Inr content \<Rightarrow>
             (case comment_findUnique d (of_int commentId) of
                Inl _ \<Rightarrow> (Response 500 (ErrorMsg ''Internal server error''), d)
              | Inr None \<Rightarrow> (Response 404 (ErrorMsg ''Comment not found.''), d)
              | Inr (Some existingComment) \<Rightarrow>
                 if c_userId existingComment \<noteq> u_id u
                 then (Response 403 (ErrorMsg ''You are not authorized to update this comment.''), d)
                 else
                   (case comment_update d (of_int commentId) content (now e) of
                      Inl _ \<Rightarrow> (Response 500 (ErrorMsg ''Internal server error''), d)
                    | Inr (updatedComment, d') \<Rightarrow>
                        (Response 200
                           (CommentOut updatedComment (user_ref d' (c_userId updatedComment))),
                         d')))))"

text \<open>\<open>router.delete('/:id', authenticateToken, ...)\<close>: delete a comment.\<close>

definition comments_delete_handler :: "env \<Rightarrow> user \<Rightarrow> request \<Rightarrow> db \<Rightarrow> response \<times> db" where
  "comments_delete_handler e u req d =
     (case parseInt (params_id req) of
        None \<Rightarrow> (Response 400 (ErrorMsg ''Invalid comment ID.''), d)
      | Some commentId \<Rightarrow>
         (case comment_findUnique d (of_int commentId) of
            Inl _ \<Rightarrow> (Response 500 (ErrorMsg ''Internal server error''), d)
          | Inr None \<Rightarrow> (Response 404 (ErrorMsg ''Comment not found.''), d)
          | Inr (Some existingComment) \<Rightarrow>
             if c_userId existingComment \<noteq> u_id u
             then (Response 403 (ErrorMsg ''You are not authorized to delete this comment.''), d)
             else
               (case comment_delete d (of_int commentId) of
                  Inl _ \<Rightarrow> (Response 500 (ErrorMsg ''Internal server error''), d)
                | Inr d' \<Rightarrow> (Response 200 (Message ''Comment deleted successfully.''), d'))))"

definition comments_put :: "env \<Rightarrow> request \<Rightarrow> db \<Rightarrow> response \<times> db" where
  "comments_put = authenticated comments_put_handler"

definition comments_delete :: "env \<Rightarrow> request \<Rightarrow> db \<Rightarrow> response \<times> db" where
  "comments_delete = authenticated comments_delete_handler"

text \<open>\<open>router.get('/', ...)\<close>: the comments of a review, by page.\<close>

text \<open>The pattern \<open>/^\d+$/\<close>.\<close>

definition is_digits :: "string \<Rightarrow> bool" where
  "is_digits s \<longleftrightarrow> 0 < length s \<and> list_all is_digit (units s)"

definition getCommentsSchema ::
  "json \<Rightarrow> issue list + (string \<times> number option \<times> number option)" where
  "getCommentsSchema q =
     (if \<not> is_object q then Inl [Issue []]
      else
        (let reviewId = refine is_digits (z_string (field q ''reviewId''));
             page = z_default (JStr ''1'')
                      (\<lambda>j. map_option Number_digits (refine is_digits (z_string j)))
                      (field q ''page'');
             limit = z_default (JStr ''10'')
                       (\<lambda>j. map_option Number_digits (refine is_digits (z_string j)))
                       (field q ''limit'')
         in case (reviewId, page, limit) of
              (Some r, Some p, Some l) \<Rightarrow> Inr (r, p, l)
            | _ \<Rightarrow> Inl (chk ''reviewId'' reviewId @ chk ''page'' page @ chk ''limit'' limit)))"

text \<open>
  The list of the comments of a review. Where \<open>page\<close> or \<open>limit\<close> is \<open>Infinity\<close>, \<open>skip\<close>
  or \<open>take\<close> is \<open>Infinity\<close> or \<open>NaN\<close>, which the client refuses.
\<close>

definition comments_get :: "env \<Rightarrow> request \<Rightarrow> db \<Rightarrow> response \<times> db" where
  "comments_get e req d =
     (case getCommentsSchema (query req) of
        Inl issues \<Rightarrow> (Response 400 (ZodErrors issues), d)
      | Inr (reviewId, page, limit) \<Rightarrow>
         (case parseInt (units reviewId) of
            None \<Rightarrow> (Response 500 (ErrorMsg ''Internal server error''), d)
          | Some parsedReviewId \<Rightarrow>
             (case review_findUnique d (of_int parsedReviewId) of
                Inl _ \<Rightarrow> (Response 500 (ErrorMsg ''Internal server error''), d)
              | Inr None \<Rightarrow> (Response 404 (ErrorMsg ''Review not found.''), d)
              | Inr (Some review) \<Rightarrow>
                 (case (page, limit) of
                    (Some p, Some l) \<Rightarrow>
                      (case comment_findMany d (of_int parsedReviewId) (js_mul (js_sub p 1) l) l of
                         Inl _ \<Rightarrow> (Response 500 (ErrorMsg ''Internal server error''), d)
                       | Inr rows \<Rightarrow> (Response 200 (CommentsPage p l rows), d))
                  | _ \<Rightarrow> (Response 500 (ErrorMsg ''Internal server error''), d)))))"

section \<open>api/users/routes.js\<close>

text \<open>\<open>router.post('/register', ...)\<close>\<close>

definition registerSchema :: "env \<Rightarrow> json \<Rightarrow> issue list + (string \<times> string \<times> string)" where
  "registerSchema e b =
     (if \<not> is_object b then Inl [Issue []]
      else
        (let username = refine (\<lambda>s. 3 \<le> length s) (z_string (field b ''username''));
             email = refine (is_email e) (z_string (field b ''email''));
             password = refine (\<lambda>s. 6 \<le> length s) (z_string (field b ''password''))
         in case (username, email, password) of
              (Some n, Some m, Some p) \<Rightarrow> Inr (n, m, p)
            | _ \<Rightarrow> Inl (chk ''username'' username @ chk ''email'' email @ chk ''password'' password)))"

definition users_register :: "env \<Rightarrow> request \<Rightarrow> db \<Rightarrow> response \<times> db" where
  "users_register e req d =
     (case registerSchema e (body req) of
        Inl issues \<Rightarrow> (Response 400 (ZodErrors issues), d)
      | Inr (username, email, password) \<Rightarrow>
         (case user_findUnique_email d email of
            Some existingUser \<Rightarrow> (Response 400 (ErrorMsg ''Email already in use''), d)
          | None \<Rightarrow>
             (let hashedPassword = bcrypt_hash e password
              in case user_create d username email hashedPassword (now e) of
                   Inl (_, d') \<Rightarrow> (Response 500 (ErrorMsg ''Internal server error''), d')
                 | Inr (u, d') \<Rightarrow>
                     (Response 201 (UserOut (u_id u) (u_username u) (u_email u) (u_createdAt u)),
                      d'))))"

text \<open>\<open>router.post('/login', ...)\<close>\<close>

definition loginSchema :: "env \<Rightarrow> json \<Rightarrow> issue list + (string \<times> string)" where
  "loginSchema e b =
     (if \<not> is_object b then Inl [Issue []]
      else
        (let email = refine (is_email e) (z_string (field b ''email''));
             password = refine (\<lambda>s. 6 \<le> length s) (z_string (field b ''password''))
         in case (email, password) of
              (Some m, Some p) \<Rightarrow> Inr (m, p)
            | _ \<Rightarrow> Inl (chk ''email'' email @ chk ''password'' password)))"

definition users_login :: "env \<Rightarrow> request \<Rightarrow> db \<Rightarrow> response \<times> db" where
  "users_login e req d =
     (case loginSchema e (body req) of
        Inl issues \<Rightarrow> (Response 400 (ZodErrors issues), d)
      | Inr (email, password) \<Rightarrow>
         (case user_findUnique_email d email of
            None \<Rightarrow> (Response 400 (ErrorMsg ''Invalid credentials''), d)
          | Some u \<Rightarrow>
             if bcrypt_compare e password (u_password u)
             then (Response 200 (Token (jwt_sign e (u_id u))), d)
             else (Response 400 (ErrorMsg ''Invalid credentials''), d)))"

section \<open>api/items/routes.js\<close>

text \<open>\<open>router.get('/', ...)\<close>: the items, by page, each with its average rating.\<close>

definition is_int :: "number \<Rightarrow> bool" where
  "is_int q \<longleftrightarrow> of_int \<lfloor>q\<rfloor> = q"

definition querySchema ::
  "json \<Rightarrow> issue list + (string option \<times> string option \<times> number \<times> number)" where
  "querySchema q =
     (if \<not> is_object q then Inl [Issue []]
      else
        (let search = z_optional z_string (field q ''search'');
             category = z_optional z_string (field q ''category'');
             page = z_default (JNum 1) (\<lambda>j. refine (\<lambda>n. 1 \<le> n) (refine is_int (z_number j)))
                      (field q ''page'');
             limit = z_default (JNum 10)
                       (\<lambda>j. refine (\<lambda>n. n \<le> 100) (refine (\<lambda>n. 1 \<le> n) (refine is_int (z_number j))))
                       (field q ''limit'')
         in case (search, category, page, limit) of
              (Some s, Some c, Some p, Some l) \<Rightarrow> Inr (s, c, p, l)
            | _ \<Rightarrow> Inl (chk ''search'' search @ chk ''category'' category
                         @ chk ''page'' page @ chk ''limit'' limit)))"

text \<open>
  \<open>{ contains: search, mode: 'insensitive' }\<close> is sent to PostgreSQL as
  \<open>column ILIKE '%' || search || '%'\<close> with the text of \<open>search\<close> as it came: in the
  pattern \<open>%\<close> stands for any run of characters, \<open>_\<close> for any one character, and a
  backslash makes the character after it stand for itself. \<open>like pattern s\<close> is that match;
  \<open>ILIKE\<close> compares in lower case, here of ASCII letters. The pattern of this query ends
  with \<open>%\<close>, so a backslash in it is always followed by a character.
\<close>

definition lower :: "char \<Rightarrow> char" where
  "lower c =
     (if (65::nat) \<le> of_char c \<and> of_char c \<le> (90::nat) then char_of (of_char c + (32::nat))
      else c)"

fun like :: "string \<Rightarrow> string \<Rightarrow> bool" where
  "like [] s = (s = [])"
| "like [p] [] = (p = CHR ''%'')"
| "like (p # q # ps) [] = (p = CHR ''%'' \<and> like (q # ps) [])"
| "like [p] (c # cs) =
     (if p = CHR ''%'' then True
      else if p = CHR ''_'' then cs = []
      else if p = CHR 0x5C then False
      else p = c \<and> cs = [])"
| "like (p # q # ps) (c # cs) =
     (if p = CHR ''%'' then like (q # ps) (c # cs) \<or> like (p # q # ps) cs
      else if p = CHR ''_'' then like (q # ps) cs
      else if p = CHR 0x5C then q = c \<and> like ps cs
      else p = c \<and> like (q # ps) cs)"

definition contains_insensitive :: "string \<Rightarrow> string \<Rightarrow> bool" where
  "contains_insensitive s search = like (map lower (''%'' @ search @ ''%'')) (map lower s)"

text \<open>The \<open>where\<close> object: a filter is added only for a truthy (non-empty) parameter.\<close>

definition items_where :: "string option \<Rightarrow> string option \<Rightarrow> item \<Rightarrow> bool" where
  "items_where search category x =
     ((case search of None \<Rightarrow> True
       | Some s \<Rightarrow>
          if s = [] then True
          else (contains_insensitive (i_name x) s
                \<or> (case i_description x of None \<Rightarrow> False
                    | Some dsc \<Rightarrow> contains_insensitive dsc s)))
      \<and> (case category of None \<Rightarrow> True
         | Some c \<Rightarrow> if c = [] then True else i_category x = Some c))"

text \<open>
  The average of both item routes: \<open>reduce\<close> over the ratings, the division by the
  length, and \<open>averageRating ? parseFloat(averageRating.toFixed(2)) : null\<close>, where a
  zero average is falsy; \<open>None\<close> is \<open>null\<close>.
\<close>

definition averageRating :: "int list \<Rightarrow> number option" where
  "averageRating ratings =
     (let avg = (if 0 < length ratings
                 then Some (js_div (foldl (\<lambda>acc curr. js_add acc (of_int curr)) 0 ratings)
                              (of_nat (length ratings)))
                 else None)
      in case avg of None \<Rightarrow> None
         | Some a \<Rightarrow> if a = 0 then None else Some (parseFloat_toFixed2 a))"

definition items_get :: "env \<Rightarrow> request \<Rightarrow> db \<Rightarrow> response \<times> db" where
  "items_get e req d =
     (case querySchema (query req) of
        Inl issues \<Rightarrow> (Response 400 (ZodErrors issues), d)
      | Inr (search, category, page, limit) \<Rightarrow>
         (case item_findMany d (items_where search category) (js_mul (js_sub page 1) limit) limit of
            Inl _ \<Rightarrow> (Response 500 (ErrorMsg ''Internal server error''), d)
          | Inr rows \<Rightarrow>
              (Response 200
                 (ItemsPage page limit
                    (map (\<lambda>(x, ratings).
                            \<lparr>o_id = i_id x, o_name = i_name x, o_description = i_description x,
                             o_category = i_category x, o_createdAt = i_createdAt x,
                             o_averageRating = averageRating ratings\<rparr>) rows)),
               d)))"

text \<open>\<open>router.get('/:id', ...)\<close>: one item with its reviews and their comments.\<close>

text \<open>
  An object literal in shorthand form, \<open>{ id, username }\<close>, reads the variables of those
  names; reading a name that no enclosing scope binds throws a ReferenceError. The names
  bound where the \<open>/:id\<close> handler builds its query are those of the handler, of the
  module and of Node (its globals in use here; none of them is called \<open>id\<close> or
  \<open>username\<close>).
\<close>

datatype js_error = ReferenceError string

definition shorthand :: "string list \<Rightarrow> string list \<Rightarrow> js_error + string list" where
  "shorthand scope names =
     (case filter (\<lambda>x. \<not> List.member scope x) names of
        [] \<Rightarrow> Inr names
      | x # _ \<Rightarrow> Inl (ReferenceError x))"

definition items_routes_scope :: "string list" where
  "items_routes_scope =
     [''globalThis'', ''global'', ''console'', ''process'', ''Buffer'', ''setTimeout'',
      ''exports'', ''require'', ''module'', ''__filename'', ''__dirname'',
      ''express'', ''prisma'', ''z'', ''router'', ''querySchema'',
      ''req'', ''res'', ''itemId'']"

definition items_get_id :: "env \<Rightarrow> request \<Rightarrow> db \<Rightarrow> response \<times> db" where
  "items_get_id e req d =
     (case parseInt (params_id req) of
        None \<Rightarrow> (Response 400 (ErrorMsg ''Invalid item ID''), d)
      | Some itemId \<Rightarrow>
         (case shorthand items_routes_scope [''id'', ''username''] of
            Inl _ \<Rightarrow> (Response 500 (ErrorMsg ''Internal server error''), d)
          | Inr _ \<Rightarrow>
             (case item_findUnique d (of_int itemId) of
                Inl _ \<Rightarrow> (Response 500 (ErrorMsg ''Internal server error''), d)
              | Inr None \<Rightarrow> (Response 404 (ErrorMsg ''Item not found''), d)
              | Inr (Some x) \<Rightarrow>
                 (let revs = filter (\<lambda>r. r_itemId r = i_id x) (reviews d)
                  in (Response 200
                        (ItemDetail x
                           (map (\<lambda>r. (r, user_ref d (r_userId r),
                                      map (\<lambda>c. (c, user_ref d (c_userId c)))
                                        (filter (\<lambda>c. c_reviewId c = r_id r) (comments d))))
                              revs)
                           (averageRating (map r_rating revs))),
                      d)))))"

section \<open>Notions of the specification\<close>

text \<open>At most one review for each pair of a user and an item.\<close>

definition unique_pairs :: "review list \<Rightarrow> bool" where
  "unique_pairs rs = distinct (map (\<lambda>r. (r_userId r, r_itemId r)) rs)"

text \<open>A login that did not succeed, as the caller sees it.\<close>

definition login_failed :: "response \<Rightarrow> bool" where
  "login_failed r = (case r of Response st _ \<Rightarrow> st \<noteq> 200)"

text \<open>The ratings of the reviews of an item, in table order.\<close>

definition item_ratings :: "db \<Rightarrow> int \<Rightarrow> int list" where
  "item_ratings d i = map r_rating (filter (\<lambda>r. r_itemId r = i) (reviews d))"

definition mean :: "int list \<Rightarrow> rat" where
  "mean rs = of_int (sum_list rs) / of_nat (length rs)"

text \<open>Rounding to two decimal places, a half upwards.\<close>

definition round2 :: "rat \<Rightarrow> rat" where
  "round2 q = of_int \<lfloor>100 * q + 1 / 2\<rfloor> / 100"

definition spec_averageRating :: "int list \<Rightarrow> rat option" where
  "spec_averageRating rs = (if rs = [] then None else Some (round2 (mean rs)))"

section \<open>The seeded test database (jest global setup) and a test environment\<close>

definition user1 :: user where
  "user1 = \<lparr>u_id = 1, u_username = ''testuser1'', u_email = ''testuser1@example.com'',
             u_password = ''hash:password123'', u_createdAt = 1\<rparr>"

definition user2 :: user where
  "user2 = \<lparr>u_id = 2, u_username = ''testuser2'', u_email = ''testuser2@example.com'',
             u_password = ''hash:password123'', u_createdAt = 2\<rparr>"

definition item1 :: item where
  "item1 = \<lparr>i_id = 1, i_name = ''Test Item 1'',
             i_description = Some ''Description for Test Item 1'',
             i_category = Some ''Category A'', i_createdAt = 3\<rparr>"

definition item2 :: item where
  "item2 = \<lparr>i_id = 2, i_name = ''Test Item 2'',
             i_description = Some ''Description for Test Item 2'',
             i_category = Some ''Category B'', i_createdAt = 4\<rparr>"

definition review1 :: review where
  "review1 = \<lparr>r_id = 1, r_rating = 5, r_content = ''Excellent product!'', r_userId = 1,
               r_itemId = 1, r_createdAt = 5, r_updatedAt = 5\<rparr>"

definition review2 :: review where
  "review2 = \<lparr>r_id = 2, r_rating = 4, r_content = ''Very good, but could be improved.'',
               r_userId = 2, r_itemId = 1, r_createdAt = 6, r_updatedAt = 6\<rparr>"

definition comment1 :: comment where
  "comment1 = \<lparr>c_id = 1, c_content = ''I agree with this review.'', c_userId = 2,
                c_reviewId = 1, c_createdAt = 7, c_updatedAt = 7\<rparr>"

definition comment2 :: comment where
  "comment2 = \<lparr>c_id = 2, c_content = ''Thanks for the feedback!'', c_userId = 1,
                c_reviewId = 2, c_createdAt = 7, c_updatedAt = 7\<rparr>"

definition seed_db :: db where
  "seed_db =
     \<lparr>users = [user1, user2], items = [item1, item2], reviews = [review1, review2],
      comments = [comment1, comment2], user_seq = 3, review_seq = 3\<rparr>"

definition test_env :: env where
  "test_env =
     \<lparr>jwt_verify = (\<lambda>t. if t = ''t1'' then Some 1 else if t = ''t2'' then Some 2
                         else if t = ''t9'' then Some 9 else None),
      jwt_sign = (\<lambda>i. if i = 1 then ''t1'' else if i = 2 then ''t2'' else ''t9''),
      bcrypt_hash = (\<lambda>p. ''hash:'' @ p),
      bcrypt_compare = (\<lambda>p h. h = ''hash:'' @ p),
      is_email = (\<lambda>s. List.member s CHR ''@''),
      now = 100\<rparr>"

definition test_request :: "string \<Rightarrow> string \<Rightarrow> json \<Rightarrow> request" where
  "test_request token ident b =
     \<lparr>authorization = Some (''Bearer '' @ token), params_id = units ident, query = JObj [], body = b\<rparr>"

section \<open>Evaluation of the fixtures\<close>

lemma trunc_of_int: "trunc (of_int i) = i"
  by (simp add: trunc_def)

lemma prisma_Int_of_int:
  "- (2 ^ 31) \<le> i \<Longrightarrow> i < 2 ^ 31 \<Longrightarrow> prisma_Int (of_int i) = Inr i"
  by (simp add: prisma_Int_def trunc_of_int)

lemma prisma_Int64_of_int:
  "- (2 ^ 63) \<le> i \<Longrightarrow> i < 2 ^ 63 \<Longrightarrow> prisma_Int64 (of_int i) = Inr i"
  by (simp add: prisma_Int64_def trunc_of_int)

lemma floor_numeral_div: "\<lfloor>(numeral a :: rat) / numeral b\<rfloor> = numeral a div numeral b"
  using floor_divide_of_int_eq [of "numeral a" "numeral b", where ?'a = rat] by simp

text \<open>A fraction is dropped, toward zero.\<close>

lemma prisma_Int_fraction:
  "prisma_Int (9 / 2) = Inr 4" "prisma_Int (- (9 / 2)) = Inr (- 4)"
  "prisma_Int (2 ^ 31) = Inl OutOfRange"
  by (simp_all add: prisma_Int_def trunc_def ceiling_def floor_numeral_div)

lemma prisma_Int_1: "prisma_Int 1 = Inr 1"
  using prisma_Int_of_int [of 1] by simp

lemma prisma_Int_numeral:
  "(numeral k :: int) < 2147483648 \<Longrightarrow> prisma_Int (numeral k) = Inr (numeral k)"
  using prisma_Int_of_int [of "numeral k"] by simp

lemmas seed_rows =
  user1_def user2_def item1_def item2_def review1_def review2_def comment1_def comment2_def

lemma seed_tables:
  "users seed_db = [user1, user2]" "items seed_db = [item1, item2]"
  "reviews seed_db = [review1, review2]" "comments seed_db = [comment1, comment2]"
  "user_seq seed_db = 3" "review_seq seed_db = 3"
  by (simp_all add: seed_db_def)

lemma seed_ids:
  "u_id user1 = 1" "u_id user2 = 2" "i_id item1 = 1" "i_id item2 = 2"
  "r_id review1 = 1" "r_id review2 = 2" "c_id comment1 = 1" "c_id comment2 = 2"
  "r_userId review1 = 1" "r_userId review2 = 2" "r_itemId review1 = 1" "r_itemId review2 = 1"
  "c_userId comment1 = 2" "c_userId comment2 = 1" "c_reviewId comment1 = 1" "c_reviewId comment2 = 2"
  by (simp_all add: seed_rows)

lemma test_env_simps:
  "jwt_verify test_env ''t1'' = Some 1" "jwt_verify test_env ''t2'' = Some 2"
  "jwt_verify test_env ''t9'' = Some 9" "jwt_verify test_env ''bad'' = None"
  "now test_env = 100"
  by (simp_all add: test_env_def)

lemma test_request_simps:
  "authorization (test_request t i b) = Some (''Bearer '' @ t)"
  "params_id (test_request t i b) = units i" "body (test_request t i b) = b"
  "query (test_request t i b) = JObj []"
  by (simp_all add: test_request_def)

lemma bearer_Bearer:
  "bearer (Some ''Bearer t1'') = Some ''t1''" "bearer (Some ''Bearer t2'') = Some ''t2''"
  "bearer (Some ''Bearer t9'') = Some ''t9''" "bearer (Some ''Bearer bad'') = Some ''bad''"
  by (simp_all add: bearer_def)

lemma gate_t1: "authenticateToken test_env (test_request ''t1'' i b) seed_db = (Next user1, seed_db)"
  by (simp add: authenticateToken_def test_request_simps bearer_Bearer test_env_simps
      user_findUnique_id_def prisma_Int_1 seed_tables seed_ids)

lemma gate_t2: "authenticateToken test_env (test_request ''t2'' i b) seed_db = (Next user2, seed_db)"
  by (simp add: authenticateToken_def test_request_simps bearer_Bearer test_env_simps
      user_findUnique_id_def prisma_Int_numeral seed_tables seed_ids)

lemma parseInt_abc: "parseInt (units ''abc'') = None"
  by (simp add: parseInt_def units_def is_ws_def is_digit_def)

lemma parseInt_digits:
  "parseInt (units ''1'') = Some 1" "parseInt (units ''2'') = Some 2"
  "parseInt (units ''99'') = Some 99" "parseInt (units ''999999'') = Some 999999"
  by (simp_all add: parseInt_def units_def is_ws_def is_digit_def digits_val_def digit_val_def)

text \<open>White space beyond ASCII is skipped, a sign is read, and what follows the digits ignored.\<close>

lemma parseInt_examples:
  "parseInt [0xA0, 50] = Some 2" "parseInt [0x2003, 0xFEFF, 50] = Some 2"
  "parseInt (units ''  -7'') = Some (- 7)" "parseInt (units ''12abc'') = Some 12"
  "parseInt [0xC2, 0xA0, 50] = None" "parseInt (units ''+'') = None"
  by (simp_all add: parseInt_def units_def is_ws_def is_digit_def digits_val_def digit_val_def)

lemma seed_lookups:
  "review_findUnique seed_db 1 = Inr (Some review1)"
  "review_findUnique seed_db 2 = Inr (Some review2)"
  "review_findUnique seed_db 99 = Inr None"
  "comment_findUnique seed_db 1 = Inr (Some comment1)"
  "comment_findUnique seed_db 2 = Inr (Some comment2)"
  "comment_findUnique seed_db 99 = Inr None"
  "item_findUnique seed_db 1 = Inr (Some item1)"
  "item_findUnique seed_db 999999 = Inr None"
  by (simp_all add: review_findUnique_def comment_findUnique_def item_findUnique_def
      prisma_Int_1 prisma_Int_numeral seed_tables seed_ids)

section \<open>The authentication gate\<close>

lemma gate_db: "snd (authenticateToken e req d) = d"
  by (simp add: authenticateToken_def split: option.splits sum.splits)

lemma gate_Next:
  "fst (authenticateToken e req d) = Next u \<Longrightarrow> authenticateToken e req d = (Next u, d)"
  using gate_db [of e req d] by (cases "authenticateToken e req d") simp

lemma authenticated_Next:
  "fst (authenticateToken e req d) = Next u \<Longrightarrow> authenticated h e req d = h e u req d"
  by (simp add: authenticated_def gate_Next)

text \<open>
  C2. The gate answers 401 (\<open>Access token missing\<close>) when the header yields no token, 403
  when \<open>jwt.verify\<close> rejects the token, 401 (\<open>User not found\<close>) when the token verifies
  and the store has no user of the embedded id, and otherwise passes the user it found on to
  the handler. An embedded id that fits an \<open>Int\<close> column, as the id of every stored user
  does, is always looked up. A route behind the gate runs its handler with the user the
  gate passed on, and answers with the gate's rejection otherwise. The gate returns the
  store as it was.
\<close>

theorem gate_outcomes:
  "(bearer (authorization req) = None
      \<longrightarrow> authenticateToken e req d
          = (Reject (Response 401 (ErrorMsg ''Access token missing'')), d))
   \<and> (\<forall>t. bearer (authorization req) = Some t \<and> jwt_verify e t = None
      \<longrightarrow> authenticateToken e req d
          = (Reject (Response 403 (ErrorMsg ''Invalid or expired token'')), d))
   \<and> (\<forall>t i. bearer (authorization req) = Some t \<and> jwt_verify e t = Some i
          \<and> user_findUnique_id d (of_int i) = Inr None
      \<longrightarrow> authenticateToken e req d = (Reject (Response 401 (ErrorMsg ''User not found'')), d))
   \<and> (\<forall>t i u. bearer (authorization req) = Some t \<and> jwt_verify e t = Some i
          \<and> user_findUnique_id d (of_int i) = Inr (Some u)
      \<longrightarrow> authenticateToken e req d = (Next u, d))
   \<and> (\<forall>i. - (2 ^ 31) \<le> i \<and> i < 2 ^ 31
      \<longrightarrow> user_findUnique_id d (of_int i) = Inr (find (\<lambda>u. u_id u = i) (users d)))
   \<and> (\<forall>h u. authenticateToken e req d = (Next u, d) \<longrightarrow> authenticated h e req d = h e u req d)
   \<and> (\<forall>h r. authenticateToken e req d = (Reject r, d) \<longrightarrow> authenticated h e req d = (r, d))
   \<and> snd (authenticateToken e req d) = d"
proof -
  have "snd (authenticateToken e req d) = d"
    by (rule gate_db)
  moreover have "\<forall>i. - (2 ^ 31) \<le> i \<and> i < 2 ^ 31
      \<longrightarrow> user_findUnique_id d (of_int i) = Inr (find (\<lambda>u. u_id u = i) (users d))"
    by (simp add: user_findUnique_id_def prisma_Int_of_int)
  moreover have "\<forall>h u. authenticateToken e req d = (Next u, d) \<longrightarrow> authenticated h e req d = h e u req d"
    "\<forall>h r. authenticateToken e req d = (Reject r, d) \<longrightarrow> authenticated h e req d = (r, d)"
    by (simp_all add: authenticated_def)
  moreover have
    "bearer (authorization req) = None
      \<longrightarrow> authenticateToken e req d
          = (Reject (Response 401 (ErrorMsg ''Access token missing'')), d)"
    "\<forall>t. bearer (authorization req) = Some t \<and> jwt_verify e t = None
      \<longrightarrow> authenticateToken e req d
          = (Reject (Response 403 (ErrorMsg ''Invalid or expired token'')), d)"
    "\<forall>t i. bearer (authorization req) = Some t \<and> jwt_verify e t = Some i
          \<and> user_findUnique_id d (of_int i) = Inr None
      \<longrightarrow> authenticateToken e req d = (Reject (Response 401 (ErrorMsg ''User not found'')), d)"
    "\<forall>t i u. bearer (authorization req) = Some t \<and> jwt_verify e t = Some i
          \<and> user_findUnique_id d (of_int i) = Inr (Some u)
      \<longrightarrow> authenticateToken e req d = (Next u, d)"
    by (simp_all add: authenticateToken_def)
  ultimately show ?thesis
    by blast
qed

lemma bearer_absent:
  "bearer None = None" "bearer (Some ''Bearer'') = None" "bearer (Some ''Bearer '') = None"
  by (simp_all add: bearer_def)

theorem gate_outcomes_witness:
  "authenticateToken test_env (test_request ''t1'' ''1'' JNull\<lparr>authorization := None\<rparr>) seed_db
     = (Reject (Response 401 (ErrorMsg ''Access token missing'')), seed_db)
   \<and> authenticateToken test_env (test_request ''bad'' ''1'' JNull) seed_db
     = (Reject (Response 403 (ErrorMsg ''Invalid or expired token'')), seed_db)
   \<and> authenticateToken test_env (test_request ''t9'' ''1'' JNull) seed_db
     = (Reject (Response 401 (ErrorMsg ''User not found'')), seed_db)
   \<and> authenticateToken test_env (test_request ''t2'' ''1'' JNull) seed_db = (Next user2, seed_db)
   \<and> user_findUnique_id seed_db (of_int 2) = Inr (Some user2)"
  using
    gate_outcomes [where req = "test_request ''t1'' ''1'' JNull\<lparr>authorization := None\<rparr>"
      and e = test_env and d = seed_db]
    gate_outcomes [where req = "test_request ''bad'' ''1'' JNull" and e = test_env and d = seed_db]
    gate_outcomes [where req = "test_request ''t9'' ''1'' JNull" and e = test_env and d = seed_db]
    gate_outcomes [where req = "test_request ''t2'' ''1'' JNull" and e = test_env and d = seed_db]
  by (simp add: test_request_simps bearer_absent bearer_Bearer test_env_simps
      user_findUnique_id_def prisma_Int_numeral seed_tables seed_ids)

section \<open>The guarded routes of reviews and comments\<close>

text \<open>
  C10. A PUT or DELETE on \<open>/reviews/:id\<close> or \<open>/comments/:id\<close> by an authenticated
  caller whose \<open>:id\<close> segment \<open>parseInt\<close> reads as \<open>NaN\<close> is answered with 400 and
  \<open>Invalid review ID\<close>, respectively \<open>Invalid comment ID.\<close>, whatever the store holds
  (no row is looked up, no ownership compared), and the store is returned as it was.
\<close>

theorem invalid_id_is_400:
  assumes "fst (authenticateToken e req d) = Next u"
    and "parseInt (params_id req) = None"
  shows "reviews_put e req d = (Response 400 (ErrorMsg ''Invalid review ID''), d)
       \<and> reviews_delete e req d = (Response 400 (ErrorMsg ''Invalid review ID''), d)
       \<and> comments_put e req d = (Response 400 (ErrorMsg ''Invalid comment ID.''), d)
       \<and> comments_delete e req d = (Response 400 (ErrorMsg ''Invalid comment ID.''), d)"
  using assms
  by (simp add: reviews_put_def reviews_delete_def comments_put_def comments_delete_def
      authenticated_Next reviews_put_handler_def reviews_delete_handler_def
      comments_put_handler_def comments_delete_handler_def)

theorem invalid_id_is_400_witness:
  "fst (authenticateToken test_env (test_request ''t1'' ''abc'' JNull) seed_db) = Next user1
   \<and> parseInt (params_id (test_request ''t1'' ''abc'' JNull)) = None
   \<and> reviews_put test_env (test_request ''t1'' ''abc'' JNull) seed_db
       = (Response 400 (ErrorMsg ''Invalid review ID''), seed_db)
   \<and> reviews_delete test_env (test_request ''t1'' ''abc'' JNull) seed_db
       = (Response 400 (ErrorMsg ''Invalid review ID''), seed_db)
   \<and> comments_put test_env (test_request ''t1'' ''abc'' JNull) seed_db
       = (Response 400 (ErrorMsg ''Invalid comment ID.''), seed_db)
   \<and> comments_delete test_env (test_request ''t1'' ''abc'' JNull) seed_db
       = (Response 400 (ErrorMsg ''Invalid comment ID.''), seed_db)"
  using invalid_id_is_400 [of test_env "test_request ''t1'' ''abc'' JNull" seed_db user1]
  by (simp add: gate_t1 test_request_simps parseInt_abc)

lemma updateReviewSchema_content:
  "updateReviewSchema (JObj [(''content'', JStr ''x'')]) = Inr (None, Some ''x'')"
  by (simp add: updateReviewSchema_def z_optional_def refine_def)

lemma updateReviewSchema_rating9:
  "updateReviewSchema (JObj [(''rating'', JNum 9)]) = Inl [Issue [''rating'']]"
  by (simp add: updateReviewSchema_def z_optional_def refine_def chk_def)

lemma updateCommentSchema_content:
  "updateCommentSchema (JObj [(''content'', JStr ''x'')]) = Inr ''x''"
  by (simp add: updateCommentSchema_def refine_def)

text \<open>
  C1, as stated, fails. The update routes validate the body before they look the row up:
  a PUT by an authenticated caller on review 99, which does not exist, with the rating 9
  is answered 400 with the schema's issues, not 404.
\<close>

theorem missing_before_owner_counterexample:
  "fst (authenticateToken test_env (test_request ''t1'' ''99'' (JObj [(''rating'', JNum 9)])) seed_db)
     = Next user1
   \<and> parseInt (params_id (test_request ''t1'' ''99'' (JObj [(''rating'', JNum 9)]))) = Some 99
   \<and> review_findUnique seed_db (of_int 99) = Inr None
   \<and> reviews_put test_env (test_request ''t1'' ''99'' (JObj [(''rating'', JNum 9)])) seed_db
       = (Response 400 (ZodErrors [Issue [''rating'']]), seed_db)
   \<and> fst (reviews_put test_env (test_request ''t1'' ''99'' (JObj [(''rating'', JNum 9)])) seed_db)
       \<noteq> Response 404 (ErrorMsg ''Review not found'')"
  by (simp add: gate_t1 test_request_simps parseInt_digits seed_lookups reviews_put_def
      authenticated_def reviews_put_handler_def updateReviewSchema_rating9)

text \<open>
  C1, amended. For an update or delete request on a review or a comment by an
  authenticated caller, whose \<open>:id\<close> segment \<open>parseInt\<close> reads as an integer and (for an
  update) whose body passes the route's schema: if the store finds no row of that id, the
  answer is 404 (\<open>Review not found\<close>, \<open>Comment not found.\<close>), whoever the caller is; if it
  finds a row whose \<open>userId\<close> differs from the caller's id, the answer is 403 with the
  message of the resource and the operation. In both cases the store is returned as it was.
\<close>

theorem missing_before_owner:
  assumes "fst (authenticateToken e req d) = Next u"
    and "parseInt (params_id req) = Some n"
  shows
    "((\<exists>v. updateReviewSchema (body req) = Inr v) \<and> review_findUnique d (of_int n) = Inr None
        \<longrightarrow> reviews_put e req d = (Response 404 (ErrorMsg ''Review not found''), d))
   \<and> (\<forall>r. (\<exists>v. updateReviewSchema (body req) = Inr v)
          \<and> review_findUnique d (of_int n) = Inr (Some r) \<and> r_userId r \<noteq> u_id u
        \<longrightarrow> reviews_put e req d
            = (Response 403 (ErrorMsg ''You are not authorized to update this review.''), d))
   \<and> (review_findUnique d (of_int n) = Inr None
        \<longrightarrow> reviews_delete e req d = (Response 404 (ErrorMsg ''Review not found''), d))
   \<and> (\<forall>r. review_findUnique d (of_int n) = Inr (Some r) \<and> r_userId r \<noteq> u_id u
        \<longrightarrow> reviews_delete e req d
            = (Response 403 (ErrorMsg ''You are not authorized to delete this review.''), d))
   \<and> ((\<exists>v. updateCommentSchema (body req) = Inr v) \<and> comment_findUnique d (of_int n) = Inr None
        \<longrightarrow> comments_put e req d = (Response 404 (ErrorMsg ''Comment not found.''), d))
   \<and> (\<forall>c. (\<exists>v. updateCommentSchema (body req) = Inr v)
          \<and> comment_findUnique d (of_int n) = Inr (Some c) \<and> c_userId c \<noteq> u_id u
        \<longrightarrow> comments_put e req d
            = (Response 403 (ErrorMsg ''You are not authorized to update this comment.''), d))
   \<and> (comment_findUnique d (of_int n) = Inr None
        \<longrightarrow> comments_delete e req d = (Response 404 (ErrorMsg ''Comment not found.''), d))
   \<and> (\<forall>c. comment_findUnique d (of_int n) = Inr (Some c) \<and> c_userId c \<noteq> u_id u
        \<longrightarrow> comments_delete e req d
            = (Response 403 (ErrorMsg ''You are not authorized to delete this comment.''), d))"
proof -
  have rp: "reviews_put e req d = reviews_put_handler e u req d"
    and rd: "reviews_delete e req d = reviews_delete_handler e u req d"
    and cp: "comments_put e req d = comments_put_handler e u req d"
    and cd: "comments_delete e req d = comments_delete_handler e u req d"
    using assms(1)
    by (simp_all add: reviews_put_def reviews_delete_def comments_put_def comments_delete_def
        authenticated_Next)
  show ?thesis
    unfolding rp rd cp cd
    using assms(2)
    by (auto simp add: reviews_put_handler_def reviews_delete_handler_def
        comments_put_handler_def comments_delete_handler_def)
qed

theorem missing_before_owner_witness:
  "fst (authenticateToken test_env (test_request ''t1'' ''99'' (JObj [(''content'', JStr ''x'')])) seed_db)
     = Next user1
   \<and> review_findUnique seed_db (of_int 99) = Inr None
   \<and> comment_findUnique seed_db (of_int 99) = Inr None
   \<and> review_findUnique seed_db (of_int 2) = Inr (Some review2)
   \<and> comment_findUnique seed_db (of_int 1) = Inr (Some comment1)
   \<and> r_userId review2 \<noteq> u_id user1 \<and> c_userId comment1 \<noteq> u_id user1
   \<and> reviews_put test_env (test_request ''t1'' ''99'' (JObj [(''content'', JStr ''x'')])) seed_db
     = (Response 404 (ErrorMsg ''Review not found''), seed_db)
   \<and> reviews_delete test_env (test_request ''t1'' ''99'' (JObj [(''content'', JStr ''x'')])) seed_db
     = (Response 404 (ErrorMsg ''Review not found''), seed_db)
   \<and> comments_put test_env (test_request ''t1'' ''99'' (JObj [(''content'', JStr ''x'')])) seed_db
     = (Response 404 (ErrorMsg ''Comment not found.''), seed_db)
   \<and> comments_delete test_env (test_request ''t1'' ''99'' (JObj [(''content'', JStr ''x'')])) seed_db
     = (Response 404 (ErrorMsg ''Comment not found.''), seed_db)
   \<and> reviews_put test_env (test_request ''t1'' ''2'' (JObj [(''content'', JStr ''x'')])) seed_db
     = (Response 403 (ErrorMsg ''You are not authorized to update this review.''), seed_db)
   \<and> reviews_delete test_env (test_request ''t1'' ''2'' (JObj [(''content'', JStr ''x'')])) seed_db
     = (Response 403 (ErrorMsg ''You are not authorized to delete this review.''), seed_db)
   \<and> comments_put test_env (test_request ''t1'' ''1'' (JObj [(''content'', JStr ''x'')])) seed_db
     = (Response 403 (ErrorMsg ''You are not authorized to update this comment.''), seed_db)
   \<and> comments_delete test_env (test_request ''t1'' ''1'' (JObj [(''content'', JStr ''x'')])) seed_db
     = (Response 403 (ErrorMsg ''You are not authorized to delete this comment.''), seed_db)"
  using
    missing_before_owner [of test_env "test_request ''t1'' ''99'' (JObj [(''content'', JStr ''x'')])"
      seed_db user1 99]
    missing_before_owner [of test_env "test_request ''t1'' ''2'' (JObj [(''content'', JStr ''x'')])"
      seed_db user1 2]
    missing_before_owner [of test_env "test_request ''t1'' ''1'' (JObj [(''content'', JStr ''x'')])"
      seed_db user1 1]
  by (simp add: gate_t1 test_request_simps parseInt_digits seed_lookups seed_ids
      updateReviewSchema_content updateCommentSchema_content)

section \<open>Login\<close>

text \<open>
  C7. A login whose body passes the schema is answered 400 with \<open>Invalid credentials\<close>
  when no user has the e-mail address and when the password does not match, and 200 with a
  token signed for the user's id when it matches. Any two failed logins with well-formed
  bodies, on any stores, get the same response.
\<close>

theorem login_outcomes:
  assumes "loginSchema e (body req) = Inr (email, password)"
  shows
    "(user_findUnique_email d email = None
        \<longrightarrow> users_login e req d = (Response 400 (ErrorMsg ''Invalid credentials''), d))
     \<and> (\<forall>u. user_findUnique_email d email = Some u \<and> \<not> bcrypt_compare e password (u_password u)
        \<longrightarrow> users_login e req d = (Response 400 (ErrorMsg ''Invalid credentials''), d))
     \<and> (\<forall>u. user_findUnique_email d email = Some u \<and> bcrypt_compare e password (u_password u)
        \<longrightarrow> users_login e req d = (Response 200 (Token (jwt_sign e (u_id u))), d))
     \<and> (\<forall>e' req' d' v. loginSchema e' (body req') = Inr v
          \<and> login_failed (fst (users_login e req d)) \<and> login_failed (fst (users_login e' req' d'))
        \<longrightarrow> fst (users_login e req d) = fst (users_login e' req' d'))"
proof -
  have fail: "fst (users_login e0 r0 d0) = Response 400 (ErrorMsg ''Invalid credentials'')"
    if "loginSchema e0 (body r0) = Inr v" "login_failed (fst (users_login e0 r0 d0))"
    for e0 r0 d0 v
    using that
    by (cases v) (auto simp add: users_login_def login_failed_def split: option.splits if_splits)
  have same: "fst (users_login e req d) = fst (users_login e' req' d')"
    if "loginSchema e' (body req') = Inr v" "login_failed (fst (users_login e req d))"
      "login_failed (fst (users_login e' req' d'))" for e' req' d' v
    using fail [OF assms that(2)] fail [OF that(1) that(3)] by simp
  have outcomes:
    "user_findUnique_email d email = None
        \<longrightarrow> users_login e req d = (Response 400 (ErrorMsg ''Invalid credentials''), d)"
    "\<forall>u. user_findUnique_email d email = Some u \<and> \<not> bcrypt_compare e password (u_password u)
        \<longrightarrow> users_login e req d = (Response 400 (ErrorMsg ''Invalid credentials''), d)"
    "\<forall>u. user_findUnique_email d email = Some u \<and> bcrypt_compare e password (u_password u)
        \<longrightarrow> users_login e req d = (Response 200 (Token (jwt_sign e (u_id u))), d)"
    using assms by (simp_all add: users_login_def)
  show ?thesis
    using outcomes same by blast
qed

lemma loginSchema_test:
  "loginSchema test_env (JObj [(''email'', JStr ''testuser1@example.com''),
      (''password'', JStr ''password123'')]) = Inr (''testuser1@example.com'', ''password123'')"
  "loginSchema test_env (JObj [(''email'', JStr ''testuser1@example.com''),
      (''password'', JStr ''wrongpassword'')]) = Inr (''testuser1@example.com'', ''wrongpassword'')"
  "loginSchema test_env (JObj [(''email'', JStr ''nonexistent@example.com''),
      (''password'', JStr ''password123'')]) = Inr (''nonexistent@example.com'', ''password123'')"
  by (simp_all add: loginSchema_def refine_def test_env_def)

lemma seed_emails:
  "user_findUnique_email seed_db ''testuser1@example.com'' = Some user1"
  "user_findUnique_email seed_db ''nonexistent@example.com'' = None"
  "user_findUnique_email seed_db ''other@example.com'' = None"
  by (simp_all add: user_findUnique_email_def seed_tables seed_rows)

lemma test_compare:
  "bcrypt_compare test_env ''password123'' (u_password user1)"
  "\<not> bcrypt_compare test_env ''wrongpassword'' (u_password user1)"
  "jwt_sign test_env 1 = ''t1''" "u_id user1 = 1"
  by (simp_all add: test_env_def user1_def)

theorem login_outcomes_witness:
  "users_login test_env
      (test_request [] [] (JObj [(''email'', JStr ''nonexistent@example.com''),
         (''password'', JStr ''password123'')])) seed_db
     = (Response 400 (ErrorMsg ''Invalid credentials''), seed_db)
   \<and> users_login test_env
      (test_request [] [] (JObj [(''email'', JStr ''testuser1@example.com''),
         (''password'', JStr ''wrongpassword'')])) seed_db
     = (Response 400 (ErrorMsg ''Invalid credentials''), seed_db)
   \<and> users_login test_env
      (test_request [] [] (JObj [(''email'', JStr ''testuser1@example.com''),
         (''password'', JStr ''password123'')])) seed_db
     = (Response 200 (Token ''t1''), seed_db)"
  using
    login_outcomes [where e = test_env and d = seed_db
      and req = "test_request [] [] (JObj [(''email'', JStr ''nonexistent@example.com''),
         (''password'', JStr ''password123'')])"
      and email = "''nonexistent@example.com''" and password = "''password123''"]
    login_outcomes [where e = test_env and d = seed_db
      and req = "test_request [] [] (JObj [(''email'', JStr ''testuser1@example.com''),
         (''password'', JStr ''wrongpassword'')])"
      and email = "''testuser1@example.com''" and password = "''wrongpassword''"]
    login_outcomes [where e = test_env and d = seed_db
      and req = "test_request [] [] (JObj [(''email'', JStr ''testuser1@example.com''),
         (''password'', JStr ''password123'')])"
      and email = "''testuser1@example.com''" and password = "''password123''"]
  by (simp add: test_request_simps loginSchema_test seed_emails test_compare)

section \<open>One review for each user and item\<close>

lemma review_create_duplicate:
  "list_ex (\<lambda>r. r_userId r = uid \<and> r_itemId r = iid) (reviews d)
    \<Longrightarrow> \<exists>err. review_create d rating c (of_int uid) (of_int iid) t = Inl err"
  by (auto simp add: review_create_def prisma_Int_def trunc_of_int split: sum.splits)

lemma review_create_refused:
  "review_create d rating c uid iid t = Inl (err, d') \<Longrightarrow> reviews d' = reviews d"
  by (auto simp add: review_create_def Let_def split: sum.splits if_splits)

lemma review_create_unique:
  assumes "unique_pairs (reviews d)" and "review_create d rating c uid iid t = Inr (r, d')"
  shows "unique_pairs (reviews d')"
  using assms
  by (auto simp add: review_create_def unique_pairs_def list_ex_iff Let_def image_iff
      split: sum.splits if_splits) blast

lemma review_update_unique:
  assumes "unique_pairs (reviews d)" and "review_update d q rating c t = Inr (r, d')"
  shows "unique_pairs (reviews d')"
proof -
  have "map (\<lambda>r. (r_userId r, r_itemId r)) (reviews d') = map (\<lambda>r. (r_userId r, r_itemId r)) (reviews d)"
    using assms(2)
    by (auto simp add: review_update_def Let_def split: sum.splits option.splits)
  with assms(1) show ?thesis
    by (simp add: unique_pairs_def)
qed

lemma review_delete_unique:
  assumes "unique_pairs (reviews d)" and "review_delete d q = Inr d'"
  shows "unique_pairs (reviews d')"
  using assms
  by (auto simp add: review_delete_def unique_pairs_def distinct_map_filter
      split: sum.splits option.splits)

lemma reviews_post_handler_unique:
  "unique_pairs (reviews d) \<Longrightarrow> unique_pairs (reviews (snd (reviews_post_handler e u req d)))"
  by (auto simp add: reviews_post_handler_def split: sum.splits option.splits prod.splits
      dest: review_create_unique review_create_refused)

lemma reviews_put_handler_unique:
  "unique_pairs (reviews d) \<Longrightarrow> unique_pairs (reviews (snd (reviews_put_handler e u req d)))"
  by (auto simp add: reviews_put_handler_def split: sum.splits option.splits prod.splits
      dest: review_update_unique)

lemma reviews_delete_handler_unique:
  "unique_pairs (reviews d) \<Longrightarrow> unique_pairs (reviews (snd (reviews_delete_handler e u req d)))"
  by (auto simp add: reviews_delete_handler_def split: sum.splits option.splits prod.splits
      dest: review_delete_unique)

lemma authenticated_unique:
  assumes "\<And>u. unique_pairs (reviews d) \<Longrightarrow> unique_pairs (reviews (snd (h e u req d)))"
    and "unique_pairs (reviews d)"
  shows "unique_pairs (reviews (snd (authenticated h e req d)))"
proof (cases "fst (authenticateToken e req d)")
  case (Next u)
  then show ?thesis
    using assms by (simp add: authenticated_Next)
next
  case (Reject r)
  then have "authenticateToken e req d = (Reject r, d)"
    using gate_db [of e req d] by (cases "authenticateToken e req d") simp
  then show ?thesis
    using assms(2) by (simp add: authenticated_def)
qed

text \<open>
  C3. When a review by the authenticated user for the item of the request is stored
  already, creating one is answered 400 with \<open>You have already reviewed this item.\<close> and
  the store is returned as it was. Whatever a pre-check saw, the insert itself is refused
  by the unique index when the pair is taken, an insert that is accepted keeps the pairs
  distinct, and so does every route that writes reviews.
\<close>

theorem one_review_per_pair:
  assumes "fst (authenticateToken e req d) = Next u"
    and "createReviewSchema (body req) = Inr (itemId, rating, content)"
    and "review_findUnique_userId_itemId d (of_int (u_id u)) itemId = Inr (Some r)"
  shows
    "reviews_post e req d = (Response 400 (ErrorMsg ''You have already reviewed this item.''), d)
     \<and> (\<forall>d0 rt c uid iid t.
           list_ex (\<lambda>r. r_userId r = uid \<and> r_itemId r = iid) (reviews d0)
           \<longrightarrow> (\<exists>err. review_create d0 rt c (of_int uid) (of_int iid) t = Inl err))
     \<and> (\<forall>d0 rt c uid iid t r1 d1.
           unique_pairs (reviews d0) \<and> review_create d0 rt c uid iid t = Inr (r1, d1)
           \<longrightarrow> unique_pairs (reviews d1))
     \<and> (\<forall>e0 req0 d0.
           unique_pairs (reviews d0)
           \<longrightarrow> unique_pairs (reviews (snd (reviews_post e0 req0 d0)))
             \<and> unique_pairs (reviews (snd (reviews_put e0 req0 d0)))
             \<and> unique_pairs (reviews (snd (reviews_delete e0 req0 d0))))"
proof -
  have "reviews_post e req d = reviews_post_handler e u req d"
    using assms(1) by (simp add: reviews_post_def authenticated_Next)
  then have first:
    "reviews_post e req d = (Response 400 (ErrorMsg ''You have already reviewed this item.''), d)"
    using assms(2,3) by (simp add: reviews_post_handler_def)
  have routes: "unique_pairs (reviews (snd (reviews_post e0 req0 d0)))
             \<and> unique_pairs (reviews (snd (reviews_put e0 req0 d0)))
             \<and> unique_pairs (reviews (snd (reviews_delete e0 req0 d0)))"
    if "unique_pairs (reviews d0)" for e0 req0 d0
    using that
    by (simp add: reviews_post_def reviews_put_def reviews_delete_def authenticated_unique
        reviews_post_handler_unique reviews_put_handler_unique reviews_delete_handler_unique)
  show ?thesis
    using first review_create_duplicate review_create_unique routes by blast
qed

lemma createReviewSchema_test:
  "createReviewSchema (JObj [(''itemId'', JNum 1), (''rating'', JNum 4),
      (''content'', JStr ''Trying to add a second review.'')])
    = Inr (1, 4, ''Trying to add a second review.'')"
  by (simp add: createReviewSchema_def refine_def)

lemma seed_pair_lookup:
  "review_findUnique_userId_itemId seed_db (of_int (u_id user1)) 1 = Inr (Some review1)"
  by (simp add: review_findUnique_userId_itemId_def prisma_Int_1 seed_tables seed_ids)

lemma seed_unique_pairs: "unique_pairs (reviews seed_db)"
  by (simp add: unique_pairs_def seed_tables seed_ids)

theorem one_review_per_pair_witness:
  "fst (authenticateToken test_env
          (test_request ''t1'' [] (JObj [(''itemId'', JNum 1), (''rating'', JNum 4),
             (''content'', JStr ''Trying to add a second review.'')])) seed_db) = Next user1
   \<and> review_findUnique_userId_itemId seed_db (of_int (u_id user1)) 1 = Inr (Some review1)
   \<and> reviews_post test_env
        (test_request ''t1'' [] (JObj [(''itemId'', JNum 1), (''rating'', JNum 4),
           (''content'', JStr ''Trying to add a second review.'')])) seed_db
      = (Response 400 (ErrorMsg ''You have already reviewed this item.''), seed_db)
   \<and> unique_pairs (reviews seed_db)
   \<and> unique_pairs (reviews (snd (reviews_post test_env
        (test_request ''t2'' [] (JObj [(''itemId'', JNum 2), (''rating'', JNum 4),
           (''content'', JStr ''Fine.'')])) seed_db)))"
  using one_review_per_pair [where e = test_env and d = seed_db and u = user1 and r = review1
      and req = "test_request ''t1'' [] (JObj [(''itemId'', JNum 1), (''rating'', JNum 4),
           (''content'', JStr ''Trying to add a second review.'')])"
      and itemId = 1 and rating = 4 and content = "''Trying to add a second review.''"]
  by (simp add: gate_t1 test_request_simps createReviewSchema_test seed_pair_lookup
      seed_unique_pairs)

section \<open>Updating a review\<close>

lemma find_Some_id: "find (\<lambda>r. r_id r = i) rs = Some r \<Longrightarrow> r_id r = i"
  by (auto simp add: find_Some_iff)

lemma review_findUnique_Some:
  "review_findUnique d q = Inr (Some r)
    \<Longrightarrow> prisma_Int q = Inr (r_id r) \<and> find (\<lambda>x. r_id x = r_id r) (reviews d) = Some r"
  by (auto simp add: review_findUnique_def split: sum.splits dest: find_Some_id)

lemma prisma_Int_rating:
  "is_int q \<Longrightarrow> 1 \<le> q \<Longrightarrow> q \<le> 5 \<Longrightarrow> prisma_Int q = Inr \<lfloor>q\<rfloor>"
proof -
  assume a: "is_int q" "1 \<le> q" "q \<le> 5"
  then have "1 \<le> \<lfloor>q\<rfloor>" "\<lfloor>q\<rfloor> \<le> 5"
    by (simp_all add: le_floor_iff floor_le_iff)
  with a show ?thesis
    by (simp add: prisma_Int_def trunc_def)
qed

lemma updateReviewSchema_rating:
  "updateReviewSchema b = Inr (Some q, c) \<Longrightarrow> 1 \<le> q \<and> q \<le> 5"
  by (auto simp add: updateReviewSchema_def z_optional_def refine_def Let_def
      split: if_splits option.splits)

lemma seed_times:
  "r_rating review1 = 5" "r_rating review2 = 4"
  "r_updatedAt review1 = 5" "r_updatedAt review2 = 6"
  by (simp_all add: seed_rows)

text \<open>
  C8, as stated, fails: a field that the request does not supply changes. An update of
  review 2 by its author that supplies only \<open>content\<close>, at time 100, moves \<open>updatedAt\<close>
  of that review from 6 to 100.
\<close>

theorem review_update_frame_counterexample:
  "fst (authenticateToken test_env (test_request ''t2'' ''2'' (JObj [(''content'', JStr ''x'')])) seed_db)
     = Next user2
   \<and> review_findUnique seed_db (of_int 2) = Inr (Some review2)
   \<and> r_userId review2 = u_id user2
   \<and> updateReviewSchema (JObj [(''content'', JStr ''x'')]) = Inr (None, Some ''x'')
   \<and> r_updatedAt review2 = 6
   \<and> map r_updatedAt
        (reviews (snd (reviews_put test_env (test_request ''t2'' ''2'' (JObj [(''content'', JStr ''x'')]))
           seed_db))) = [5, 100]
   \<and> map r_updatedAt (reviews seed_db) = [5, 6]"
  by (simp add: gate_t2 test_request_simps parseInt_digits seed_lookups reviews_put_def
      authenticated_def reviews_put_handler_def updateReviewSchema_content review_update_def
      prisma_Int_numeral test_env_simps seed_tables seed_ids seed_times)

text \<open>
  C8, amended. An update of a stored review by its author, with a body that passes the
  schema and a rating that, where supplied, is an integer: the row of that id gets the
  supplied rating and content, keeps the stored value of the one that is not supplied,
  and gets the time of the update as \<open>updatedAt\<close>; its other columns, the other reviews
  and the other tables are unchanged, and the answer is 200 with the updated row.
\<close>

theorem review_update_frame:
  assumes "fst (authenticateToken e req d) = Next u"
    and "parseInt (params_id req) = Some n"
    and "updateReviewSchema (body req) = Inr (rating, content)"
    and "review_findUnique d (of_int n) = Inr (Some r)"
    and "r_userId r = u_id u"
    and "case rating of None \<Rightarrow> - (2 ^ 31) \<le> r_rating r \<and> r_rating r < 2 ^ 31 | Some q \<Rightarrow> is_int q"
  shows
    "reviews_put e req d
       = (Response 200
            (ReviewOut
               (r\<lparr>r_rating := (case rating of Some q \<Rightarrow> \<lfloor>q\<rfloor> | None \<Rightarrow> r_rating r),
                  r_content := (case content of Some c \<Rightarrow> c | None \<Rightarrow> r_content r),
                  r_updatedAt := now e\<rparr>)
               (user_ref d (r_userId r))),
          d\<lparr>reviews :=
               map (\<lambda>x. if r_id x = n
                        then x\<lparr>r_rating := (case rating of Some q \<Rightarrow> \<lfloor>q\<rfloor> | None \<Rightarrow> r_rating r),
                               r_content := (case content of Some c \<Rightarrow> c | None \<Rightarrow> r_content r),
                               r_updatedAt := now e\<rparr>
                        else x)
                 (reviews d)\<rparr>)"
proof -
  have h: "reviews_put e req d = reviews_put_handler e u req d"
    using assms(1) by (simp add: reviews_put_def authenticated_Next)
  have id: "prisma_Int (of_int n) = Inr (r_id r)" "find (\<lambda>x. r_id x = r_id r) (reviews d) = Some r"
    using review_findUnique_Some [OF assms(4)] by simp_all
  have n: "r_id r = n"
    using id(1) by (auto simp add: prisma_Int_def trunc_of_int split: if_splits)
  have rt: "prisma_Int (case rating of Some q \<Rightarrow> q | None \<Rightarrow> of_int (r_rating r))
      = Inr (case rating of Some q \<Rightarrow> \<lfloor>q\<rfloor> | None \<Rightarrow> r_rating r)"
  proof (cases rating)
    case None
    with assms(6) show ?thesis
      by (simp add: prisma_Int_of_int)
  next
    case (Some q)
    with assms(3,6) updateReviewSchema_rating [of "body req" q content] show ?thesis
      by (simp add: prisma_Int_rating)
  qed
  show ?thesis
    unfolding h
    using assms(2,3,4,5) id n rt
    by (simp add: reviews_put_handler_def review_update_def user_ref_def)
qed

lemma updateReviewSchema_rating3:
  "updateReviewSchema (JObj [(''rating'', JNum 3)]) = Inr (Some 3, None)"
  by (simp add: updateReviewSchema_def z_optional_def refine_def)

lemma seed_user_ref: "user_ref seed_db 2 = Some (2, ''testuser2'')"
  by (simp add: user_ref_def seed_tables seed_rows)

theorem review_update_frame_witness:
  "fst (authenticateToken test_env (test_request ''t2'' ''2'' (JObj [(''rating'', JNum 3)])) seed_db)
     = Next user2
   \<and> review_findUnique seed_db (of_int 2) = Inr (Some review2)
   \<and> r_userId review2 = u_id user2
   \<and> is_int 3
   \<and> reviews_put test_env (test_request ''t2'' ''2'' (JObj [(''rating'', JNum 3)])) seed_db
       = (Response 200
            (ReviewOut (review2\<lparr>r_rating := 3, r_updatedAt := 100\<rparr>) (Some (2, ''testuser2''))),
          seed_db\<lparr>reviews := [review1, review2\<lparr>r_rating := 3, r_updatedAt := 100\<rparr>]\<rparr>)
   \<and> reviews_put test_env (test_request ''t2'' ''2'' (JObj [(''content'', JStr ''x'')])) seed_db
       = (Response 200
            (ReviewOut (review2\<lparr>r_content := ''x'', r_updatedAt := 100\<rparr>) (Some (2, ''testuser2''))),
          seed_db\<lparr>reviews := [review1, review2\<lparr>r_content := ''x'', r_updatedAt := 100\<rparr>]\<rparr>)"
  using
    review_update_frame [where e = test_env and d = seed_db and u = user2 and r = review2 and n = 2
      and req = "test_request ''t2'' ''2'' (JObj [(''rating'', JNum 3)])"
      and rating = "Some 3" and content = None]
    review_update_frame [where e = test_env and d = seed_db and u = user2 and r = review2 and n = 2
      and req = "test_request ''t2'' ''2'' (JObj [(''content'', JStr ''x'')])"
      and rating = None and content = "Some ''x''"]
  by (simp add: gate_t2 test_request_simps parseInt_digits seed_lookups seed_ids seed_times
      updateReviewSchema_rating3 updateReviewSchema_content is_int_def test_env_simps
      seed_tables seed_user_ref)

text \<open>
  A rating with a fraction passes the schema, which does not ask for an integer, and is
  stored without its fraction: review 1, rated 5, updated with the rating 4.5.
\<close>

lemma updateReviewSchema_fraction:
  "updateReviewSchema (JObj [(''rating'', JNum (9 / 2))]) = Inr (Some (9 / 2), None)"
  by (simp add: updateReviewSchema_def z_optional_def refine_def)

lemma review_update_fraction:
  "reviews_put test_env (test_request ''t1'' ''1'' (JObj [(''rating'', JNum (9 / 2))])) seed_db
     = (Response 200
          (ReviewOut (review1\<lparr>r_rating := 4, r_updatedAt := 100\<rparr>) (Some (1, ''testuser1''))),
        seed_db\<lparr>reviews := [review1\<lparr>r_rating := 4, r_updatedAt := 100\<rparr>, review2]\<rparr>)"
  by (simp add: gate_t1 test_request_simps parseInt_digits seed_lookups reviews_put_def
      authenticated_def reviews_put_handler_def updateReviewSchema_fraction review_update_def
      prisma_Int_1 prisma_Int_fraction test_env_simps seed_tables seed_ids seed_times user_ref_def)
    (simp add: seed_rows)

section \<open>The detail of an item\<close>

text \<open>A segment that is not a number is answered 400; every other request 500.\<close>

lemma item_detail_invalid_id:
  "parseInt (params_id req) = None
    \<Longrightarrow> items_get_id e req d = (Response 400 (ErrorMsg ''Invalid item ID''), d)"
  by (simp add: items_get_id_def)

lemma item_detail_numeric_id:
  "parseInt (params_id req) = Some n
    \<Longrightarrow> items_get_id e req d = (Response 500 (ErrorMsg ''Internal server error''), d)"
  by (simp add: items_get_id_def shorthand_def items_routes_scope_def)

text \<open>
  C5. The detail route of the items never reaches its lookup. The query it builds contains
  \<open>select: { id, username }\<close>, and neither name is bound in the module or the handler, so
  building it throws and the handler's \<open>catch\<close> answers 500: for item 1, which is stored
  (the route's test expects 200), and for item 999999, which is not (the test expects 404).
\<close>

theorem item_detail_is_500:
  "item_findUnique seed_db (of_int 1) = Inr (Some item1)
   \<and> items_get_id test_env (test_request [] ''1'' JNull) seed_db
       = (Response 500 (ErrorMsg ''Internal server error''), seed_db)
   \<and> item_findUnique seed_db (of_int 999999) = Inr None
   \<and> items_get_id test_env (test_request [] ''999999'' JNull) seed_db
       = (Response 500 (ErrorMsg ''Internal server error''), seed_db)
   \<and> shorthand items_routes_scope [''id'', ''username''] = Inl (ReferenceError ''id'')"
  by (simp add: items_get_id_def test_request_simps parseInt_digits seed_lookups shorthand_def
      items_routes_scope_def)

section \<open>Registration\<close>

text \<open>A taken e-mail address is reported as such, whatever the name.\<close>

lemma duplicate_email_is_400:
  assumes "registerSchema e (body req) = Inr (username, email, password)"
    and "user_findUnique_email d email = Some u"
  shows "users_register e req d = (Response 400 (ErrorMsg ''Email already in use''), d)"
  using assms by (simp add: users_register_def)

text \<open>
  C6. Registration checks the e-mail address before the insert and nothing else. A body
  with a new address and the name of a stored user passes that check, the insert is
  refused by the unique index on \<open>username\<close>, and the handler's \<open>catch\<close> answers 500 with
  \<open>Internal server error\<close>, not a 400 that names the duplicate. No user is added; the
  refused insert has drawn the id 3 from the sequence, which stands at 4 afterwards.
\<close>

theorem duplicate_username_is_500:
  "registerSchema test_env
      (JObj [(''username'', JStr ''testuser1''), (''email'', JStr ''other@example.com''),
             (''password'', JStr ''password123'')])
     = Inr (''testuser1'', ''other@example.com'', ''password123'')
   \<and> user_findUnique_email seed_db ''other@example.com'' = None
   \<and> users_register test_env
        (test_request [] []
           (JObj [(''username'', JStr ''testuser1''), (''email'', JStr ''other@example.com''),
                  (''password'', JStr ''password123'')])) seed_db
       = (Response 500 (ErrorMsg ''Internal server error''), seed_db\<lparr>user_seq := 4\<rparr>)"
  by (simp add: users_register_def test_request_simps registerSchema_def refine_def seed_emails
      user_create_def seed_tables)
    (simp add: test_env_def seed_rows)

text \<open>The next registration gets the id after the one that the refused insert drew.\<close>

lemma register_after_refusal:
  "users_register test_env
      (test_request [] []
         (JObj [(''username'', JStr ''testuser3''), (''email'', JStr ''other@example.com''),
                (''password'', JStr ''password123'')])) (seed_db\<lparr>user_seq := 4\<rparr>)
     = (Response 201 (UserOut 4 ''testuser3'' ''other@example.com'' 100),
        seed_db\<lparr>users := [user1, user2,
                    \<lparr>u_id = 4, u_username = ''testuser3'', u_email = ''other@example.com'',
                      u_password = ''hash:password123'', u_createdAt = 100\<rparr>],
                user_seq := 5\<rparr>)"
  by (simp add: users_register_def test_request_simps registerSchema_def refine_def
      user_findUnique_email_def user_create_def seed_tables Let_def)
    (simp add: test_env_def seed_rows)

section \<open>Rounding to doubles\<close>

lemma bitlen_eq:
  assumes "2 ^ n \<le> x" and "x < 2 ^ Suc n"
  shows "bitlen x = int n + 1"
proof (rule antisym)
  show "bitlen x \<le> int n + 1"
    using assms(2) by (simp add: bitlen_le_iff_power nat_add_distrib)
  show "int n + 1 \<le> bitlen x"
    using assms(1) by (simp add: bitlen_ge_iff_power nat_add_distrib)
qed

lemma ilog2_eq:
  assumes "2 ^ n \<le> q" and "q < 2 ^ Suc n"
  shows "ilog2 q = int n"
proof -
  have "(1::rat) \<le> 2 ^ n"
    by simp
  with assms(1) have one: "1 \<le> q"
    by linarith
  have "of_int (2 ^ n) \<le> q"
    using assms(1) by simp
  then have lo: "2 ^ n \<le> \<lfloor>q\<rfloor>"
    by (simp only: le_floor_iff)
  have "q < of_int (2 ^ Suc n)"
    using assms(2) by simp
  then have hi: "\<lfloor>q\<rfloor> < 2 ^ Suc n"
    by (simp only: floor_less_iff)
  show ?thesis
    using one bitlen_eq [OF lo hi] by (simp add: ilog2_def)
qed

lemma round_even_of_int: "round_even (of_int m) = m"
  by (simp add: round_even_def)

lemma round_even_error: "\<bar>of_int (round_even r) - r\<bar> \<le> 1 / 2"
proof -
  have "of_int \<lfloor>r\<rfloor> \<le> r" "r < of_int \<lfloor>r\<rfloor> + 1"
    by linarith+
  then show ?thesis
    by (auto simp add: round_even_def Let_def)
qed

lemma pow2_pos: "0 < pow2 k"
  by (simp add: pow2_def)

lemma fl_pos:
  assumes "2 ^ n \<le> q" and "q < 2 ^ Suc n"
  shows "fl q = of_int (round_even (q / pow2 (int n - 52))) * pow2 (int n - 52)"
proof -
  have "(0::rat) < 2 ^ n"
    by simp
  with assms(1) have "0 < q"
    by linarith
  then show ?thesis
    using ilog2_eq [OF assms] by (simp add: fl_def Let_def)
qed

lemma fl_error:
  assumes "2 ^ n \<le> q" and "q < 2 ^ Suc n"
  shows "\<bar>fl q - q\<bar> \<le> pow2 (int n - 52) / 2"
proof -
  let ?u = "pow2 (int n - 52)"
  have u: "0 < ?u"
    by (rule pow2_pos)
  have "fl q - q = (of_int (round_even (q / ?u)) - q / ?u) * ?u"
    using u by (simp add: fl_pos [OF assms] field_simps)
  then have "\<bar>fl q - q\<bar> = \<bar>of_int (round_even (q / ?u)) - q / ?u\<bar> * ?u"
    using u by (simp add: abs_mult)
  also have "\<dots> \<le> 1 / 2 * ?u"
    using u round_even_error [of "q / ?u"] by (intro mult_right_mono) simp_all
  finally show ?thesis
    by simp
qed

lemma fl_of_int:
  assumes "0 \<le> k" and "k < 2 ^ 53"
  shows "fl (of_int k) = of_int k"
proof (cases "k = 0")
  case True
  then show ?thesis
    by (simp add: fl_def)
next
  case False
  with assms(1) have pos: "0 < k"
    by simp
  define n where "n = nat (bitlen k - 1)"
  have b: "2 ^ n \<le> k" "k < 2 ^ nat (bitlen k)"
    using bitlen_bounds [OF pos] by (simp_all add: n_def)
  have "1 \<le> bitlen k"
    using pos by (simp add: bitlen_alt_def)
  then have "nat (bitlen k) = Suc n"
    by (simp add: n_def)
  with b have hi: "k < 2 ^ Suc n"
    by simp
  have lt: "(2::int) ^ n < 2 ^ 53"
    using b(1) assms(2) by linarith
  have n52: "n \<le> 52"
  proof (rule ccontr)
    assume "\<not> n \<le> 52"
    then have "53 \<le> n"
      by simp
    then have "(2::int) ^ 53 \<le> 2 ^ n"
      by (rule power_increasing) simp
    with lt show False
      by linarith
  qed
  have lo': "(2::rat) ^ n \<le> of_int k"
    using b(1) by (metis of_int_le_iff of_int_numeral of_int_power)
  have hi': "of_int k < (2::rat) ^ Suc n"
    using hi by (metis of_int_less_iff of_int_numeral of_int_power)
  have u: "pow2 (int n - 52) = 1 / 2 ^ (52 - n)"
    using n52 by (auto simp add: pow2_def nat_diff_distrib)
  have "of_int k / pow2 (int n - 52) = (of_int (k * 2 ^ (52 - n)) :: rat)"
    by (simp add: u)
  then have "round_even (of_int k / pow2 (int n - 52)) = k * 2 ^ (52 - n)"
    by (simp only: round_even_of_int)
  then show ?thesis
    by (simp add: fl_pos [OF lo' hi'] u)
qed

lemma fl_error_small:
  assumes "1 \<le> q" and "q \<le> 5"
  shows "\<bar>fl q - q\<bar> \<le> 1 / 2 ^ 51"
proof -
  consider "q < 2" | "2 \<le> q" "q < 4" | "4 \<le> q"
    by linarith
  then show ?thesis
  proof cases
    case 1
    then have "\<bar>fl q - q\<bar> \<le> pow2 (int 0 - 52) / 2"
      using assms by (intro fl_error) simp_all
    then show ?thesis
      by (simp add: pow2_def)
  next
    case 2
    then have "\<bar>fl q - q\<bar> \<le> pow2 (int 1 - 52) / 2"
      by (intro fl_error) simp_all
    then show ?thesis
      by (simp add: pow2_def)
  next
    case 3
    then have "\<bar>fl q - q\<bar> \<le> pow2 (int 2 - 52) / 2"
      using assms by (intro fl_error) simp_all
    then show ?thesis
      by (simp add: pow2_def)
  qed
qed


section \<open>The average rating\<close>

lemma ratings_sum_bounds:
  "list_all (\<lambda>r. 1 \<le> r \<and> r \<le> 5) rs
    \<Longrightarrow> int (length rs) \<le> sum_list rs \<and> sum_list rs \<le> 5 * int (length rs)"
  by (induction rs) auto

lemma ratings_sum_exact:
  assumes "list_all (\<lambda>r. 1 \<le> r \<and> r \<le> 5) rs" and "0 \<le> a"
    and "a + 5 * int (length rs) < 2 ^ 53"
  shows "foldl (\<lambda>acc curr. js_add acc (of_int curr)) (of_int a) rs = of_int (a + sum_list rs)"
  using assms
proof (induction rs arbitrary: a)
  case Nil
  then show ?case
    by simp
next
  case (Cons r rs)
  have r: "1 \<le> r" "r \<le> 5" and rest: "list_all (\<lambda>r. 1 \<le> r \<and> r \<le> 5) rs"
    using Cons.prems(1) by simp_all
  have "js_add (of_int a) (of_int r) = fl (of_int (a + r))"
    by (simp add: js_add_def)
  also have "\<dots> = of_int (a + r)"
    using r Cons.prems(2,3) by (intro fl_of_int) simp_all
  finally have step: "js_add (of_int a) (of_int r) = of_int (a + r)" .
  have "foldl (\<lambda>acc curr. js_add acc (of_int curr)) (of_int (a + r)) rs
      = of_int (a + r + sum_list rs)"
    using r rest Cons.prems(2,3) by (intro Cons.IH) simp_all
  then show ?case
    by (simp add: step add.assoc)
qed

lemma hundredths_nearest:
  fixes a :: rat and m s n :: int
  assumes "0 < m" and "m < 2 ^ 31"
    and "\<bar>of_int n - 100 * a\<bar> \<le> 1 / 2"
    and "\<bar>a - of_int s / of_int m\<bar> \<le> 1 / 2 ^ 51"
  shows "\<bar>(of_int n :: rat) / 100 - of_int s / of_int m\<bar> \<le> 1 / 200"
proof -
  define M :: rat where "M = of_int m"
  define q :: rat where "q = of_int s / M"
  define D :: int where "D = 2 * n * m - 200 * s"
  have "(of_int m :: rat) < of_int (2 ^ 31)"
    using assms(2) by (simp only: of_int_less_iff)
  then have M: "0 < M" "M < 2 ^ 31"
    using assms(1) by (simp_all add: M_def)
  have eq: "of_int n - 100 * q = of_int D / (2 * M)"
    using M(1) by (simp add: D_def q_def M_def field_simps)
  have near: "\<bar>of_int n - 100 * q\<bar> \<le> 1 / 2 + 100 / 2 ^ 51"
  proof -
    have "\<bar>of_int n - 100 * q\<bar> = \<bar>(of_int n - 100 * a) + 100 * (a - q)\<bar>"
      by (simp add: algebra_simps)
    also have "\<dots> \<le> \<bar>of_int n - 100 * a\<bar> + \<bar>100 * (a - q)\<bar>"
      by (rule abs_triangle_ineq)
    also have "\<dots> = \<bar>of_int n - 100 * a\<bar> + 100 * \<bar>a - q\<bar>"
      by (simp only: abs_mult abs_numeral)
    finally show ?thesis
      using assms(3,4) by (simp add: q_def M_def)
  qed
  have "\<bar>of_int n - 100 * q\<bar> \<le> 1 / 2"
  proof (cases "\<bar>D\<bar> \<le> m")
    case True
    then have "(of_int \<bar>D\<bar> :: rat) \<le> of_int m"
      by (simp only: of_int_le_iff)
    then have "\<bar>of_int D :: rat\<bar> \<le> M"
      by (simp add: M_def)
    then have "\<bar>of_int D :: rat\<bar> / (2 * M) \<le> M / (2 * M)"
      using M(1) by (intro divide_right_mono) simp_all
    then show ?thesis
      using M(1) by (simp add: eq abs_divide)
  next
    case False
    then have "m + 1 \<le> \<bar>D\<bar>"
      by simp
    then have "(of_int (m + 1) :: rat) \<le> of_int \<bar>D\<bar>"
      by (simp only: of_int_le_iff)
    then have "M + 1 \<le> \<bar>of_int D :: rat\<bar>"
      by (simp add: M_def)
    then have "(M + 1) / (2 * M) \<le> \<bar>of_int D :: rat\<bar> / (2 * M)"
      using M(1) by (intro divide_right_mono) simp_all
    also have "\<dots> = \<bar>of_int n - 100 * q\<bar>"
      using M(1) by (simp add: eq abs_divide)
    finally have "(M + 1) / (2 * M) \<le> 1 / 2 + 100 / 2 ^ 51"
      using near by linarith
    then have "M + 1 \<le> (1 / 2 + 100 / 2 ^ 51) * (2 * M)"
      using M(1) by (simp add: pos_divide_le_eq)
    then have False
      using M by simp
    then show ?thesis ..
  qed
  then have "\<bar>(of_int n - 100 * q) / 100\<bar> \<le> (1 / 2) / 100"
    by (simp only: abs_divide) simp
  then show ?thesis
    by (simp add: q_def M_def diff_divide_distrib)
qed

lemma hundredths_floor:
  fixes a q :: rat and m s :: int
  assumes "0 < m" and "m < 2 ^ 31"
    and "q = of_int s / of_int m"
    and "\<bar>a - q\<bar> \<le> 1 / 2 ^ 51"
  shows "\<lfloor>100 * a + 1 / 2\<rfloor>
    = (if is_int (100 * q + 1 / 2) \<and> a < q then \<lfloor>100 * q + 1 / 2\<rfloor> - 1
       else \<lfloor>100 * q + 1 / 2\<rfloor>)"
proof -
  define M :: rat where "M = of_int m"
  define y :: rat where "y = 100 * q + 1 / 2"
  define k :: int where "k = \<lfloor>y\<rfloor>"
  define x :: rat where "x = 100 * a + 1 / 2"
  define N :: int where "N = 200 * s + m"
  have "(of_int m :: rat) < of_int (2 ^ 31)"
    using assms(2) by (simp only: of_int_less_iff)
  then have M: "0 < M" "M < 2 ^ 31"
    using assms(1) by (simp_all add: M_def)
  have y: "y = of_int N / (2 * M)"
    using M(1) by (simp add: y_def N_def assms(3) M_def field_simps)
  have "x - y = 100 * (a - q)"
    by (simp add: x_def y_def algebra_simps)
  then have "\<bar>x - y\<bar> = 100 * \<bar>a - q\<bar>"
    by (simp only: abs_mult abs_numeral)
  then have e: "\<bar>x - y\<bar> \<le> 100 / 2 ^ 51"
    using assms(4) by simp
  have gap: "(100::rat) / 2 ^ 51 < 1 / (2 * M)"
    using M by (simp add: field_simps)
  have k: "of_int k \<le> y" "y < of_int k + 1"
    unfolding k_def by linarith+
  show ?thesis
  proof (cases "is_int y")
    case True
    then have ky: "of_int k = y"
      by (simp add: is_int_def k_def)
    show ?thesis
    proof (cases "a < q")
      case True
      then have "x < y"
        by (simp add: x_def y_def)
      then have "of_int (k - 1) \<le> x" "x < of_int (k - 1) + 1"
        using e ky by (simp_all add: abs_le_iff)
      then have "\<lfloor>x\<rfloor> = k - 1"
        by (rule floor_unique)
      then show ?thesis
        using True \<open>is_int y\<close> by (simp add: x_def y_def k_def)
    next
      case False
      then have "y \<le> x"
        by (simp add: x_def y_def)
      then have "of_int k \<le> x" "x < of_int k + 1"
        using e ky by (simp_all add: abs_le_iff)
      then have "\<lfloor>x\<rfloor> = k"
        by (rule floor_unique)
      then show ?thesis
        using False by (simp add: x_def y_def k_def)
    qed
  next
    case False
    then have "of_int k \<noteq> y"
      by (auto simp add: is_int_def k_def)
    with k have strict: "of_int k < y"
      by linarith
    have "of_int (2 * m * k) < (of_int N :: rat)"
      using strict M(1) by (simp add: y M_def field_simps)
    then have "2 * m * k < N"
      by (simp only: of_int_less_iff)
    then have "2 * m * k + 1 \<le> N"
      by simp
    then have le: "(of_int (2 * m * k + 1) :: rat) \<le> of_int N"
      by (simp only: of_int_le_iff)
    have "of_int k + 1 / (2 * M) = (of_int (2 * m * k + 1) :: rat) / (2 * M)"
      using M(1) by (simp add: M_def field_simps)
    also have "\<dots> \<le> of_int N / (2 * M)"
      using M(1) le by (intro divide_right_mono) simp_all
    finally have lo: "of_int k + 1 / (2 * M) \<le> y"
      by (simp only: y)
    have "(of_int N :: rat) < of_int (2 * m * (k + 1))"
      using k(2) M(1) by (simp add: y M_def field_simps)
    then have "N < 2 * m * (k + 1)"
      by (simp only: of_int_less_iff)
    then have "N + 1 \<le> 2 * m * (k + 1)"
      by simp
    then have le': "(of_int (N + 1) :: rat) \<le> of_int (2 * m * (k + 1))"
      by (simp only: of_int_le_iff)
    have "y + 1 / (2 * M) = (of_int (N + 1) :: rat) / (2 * M)"
      using M(1) by (simp add: y add_divide_distrib)
    also have "\<dots> \<le> of_int (2 * m * (k + 1)) / (2 * M)"
      using M(1) le' by (intro divide_right_mono) simp_all
    also have "\<dots> = of_int k + 1"
      using M(1) by (simp add: M_def field_simps)
    finally have hi: "y + 1 / (2 * M) \<le> of_int k + 1" .
    define g :: rat where "g = 1 / (2 * M)"
    define c :: rat where "c = 100 / 2 ^ 51"
    have "x - y \<le> c" "- (x - y) \<le> c"
      using e unfolding c_def by (simp_all only: abs_le_iff)
    moreover have "c < g" "of_int k + g \<le> y" "y + g \<le> of_int k + 1"
      using gap lo hi by (simp_all only: c_def g_def)
    ultimately have "of_int k \<le> x" "x < of_int k + 1"
      by linarith+
    then have "\<lfloor>x\<rfloor> = k"
      by (rule floor_unique)
    then show ?thesis
      using False by (simp add: x_def y_def k_def)
  qed
qed

lemma averageRating_Nil: "averageRating [] = None"
  by (simp add: averageRating_def)

text \<open>
  The value reported for ratings from 1 to 5: the sum is exact, the quotient is the double
  of the mean, \<open>toFixed(2)\<close> rounds that double to hundredths, a half upwards, and the
  decimal printed is read back as a double. Rounding the double differs from rounding the
  mean only when the mean lies halfway between two hundredths and its double lies below
  it; then the lower hundredth is reported.
\<close>

lemma averageRating_exact:
  assumes "list_all (\<lambda>r. 1 \<le> r \<and> r \<le> 5) rs" and "rs \<noteq> []" and "length rs < 2 ^ 31"
  shows "averageRating rs = Some (fl (of_int \<lfloor>100 * fl (mean rs) + 1 / 2\<rfloor> / 100))"
    and "(of_int \<lfloor>100 * fl (mean rs) + 1 / 2\<rfloor> :: rat) / 100
           = (if is_int (100 * mean rs + 1 / 2) \<and> fl (mean rs) < mean rs
              then round2 (mean rs) - 1 / 100 else round2 (mean rs))"
    and "\<bar>(of_int \<lfloor>100 * fl (mean rs) + 1 / 2\<rfloor> :: rat) / 100 - mean rs\<bar> \<le> 1 / 200"
proof -
  define m where "m = int (length rs)"
  define s where "s = sum_list rs"
  define q :: rat where "q = of_int s / of_int m"
  have m: "0 < m" "m < 2 ^ 31"
    using assms(2,3) by (simp_all add: m_def)
  have s: "m \<le> s" "s \<le> 5 * m"
    using ratings_sum_bounds [OF assms(1)] by (simp_all add: m_def s_def)
  have M: "(0::rat) < of_int m"
    using m(1) by simp
  have "of_int m \<le> (of_int s :: rat)" "(of_int s :: rat) \<le> of_int (5 * m)"
    using s by (simp_all only: of_int_le_iff)
  then have q: "1 \<le> q" "q \<le> 5"
    using M by (simp_all add: q_def pos_le_divide_eq pos_divide_le_eq)
  have "0 + 5 * int (length rs) < 2 ^ 53"
    using m(2) by (simp add: m_def)
  then have sum: "foldl (\<lambda>acc curr. js_add acc (of_int curr)) 0 rs = of_int s"
    using ratings_sum_exact [OF assms(1), of 0] by (simp add: s_def)
  have len: "(of_nat (length rs) :: rat) = of_int m"
    by (simp add: m_def)
  have mean: "mean rs = q"
    by (simp add: mean_def q_def s_def len)
  define a where "a = fl q"
  have a: "\<bar>a - q\<bar> \<le> 1 / 2 ^ 51"
    unfolding a_def using q by (rule fl_error_small)
  have "(1::rat) / 2 ^ 51 < 1"
    by simp
  with a q(1) have pos: "0 < a"
    by linarith
  define n where "n = \<lfloor>100 * a + 1 / 2\<rfloor>"
  have fixed: "toFixed2 a = n"
    using pos by (simp add: n_def toFixed2_def)
  have "of_int n \<le> 100 * a + 1 / 2" "100 * a + 1 / 2 < of_int n + 1"
    unfolding n_def by linarith+
  then have near: "\<bar>of_int n - 100 * a\<bar> \<le> 1 / 2"
    by linarith
  have "averageRating rs = Some (fl (of_int n / 100))"
    using assms(2) pos
    by (simp add: averageRating_def sum len js_div_def parseFloat_toFixed2_def fixed
        flip: q_def a_def)
  then show "averageRating rs = Some (fl (of_int \<lfloor>100 * fl (mean rs) + 1 / 2\<rfloor> / 100))"
    by (simp only: mean n_def a_def)
  have "n = (if is_int (100 * q + 1 / 2) \<and> a < q then \<lfloor>100 * q + 1 / 2\<rfloor> - 1
             else \<lfloor>100 * q + 1 / 2\<rfloor>)"
    unfolding n_def using m q_def a by (rule hundredths_floor)
  then have "(of_int n :: rat) / 100
      = (if is_int (100 * q + 1 / 2) \<and> a < q then round2 q - 1 / 100 else round2 q)"
    by (simp add: round2_def diff_divide_distrib)
  then show "(of_int \<lfloor>100 * fl (mean rs) + 1 / 2\<rfloor> :: rat) / 100
           = (if is_int (100 * mean rs + 1 / 2) \<and> fl (mean rs) < mean rs
              then round2 (mean rs) - 1 / 100 else round2 (mean rs))"
    by (simp only: mean n_def a_def)
  have "\<bar>(of_int n :: rat) / 100 - of_int s / of_int m\<bar> \<le> 1 / 200"
    using m near a by (intro hundredths_nearest [where a = a]) (simp_all add: q_def)
  then show "\<bar>(of_int \<lfloor>100 * fl (mean rs) + 1 / 2\<rfloor> :: rat) / 100 - mean rs\<bar> \<le> 1 / 200"
    by (simp only: mean n_def a_def q_def)
qed

section \<open>The average rating on concrete ratings\<close>

lemma fl_numeral: "(numeral k :: int) < 9007199254740992 \<Longrightarrow> fl (numeral k) = numeral k"
  using fl_of_int [of "numeral k"] by simp

lemma fl_0: "fl 0 = 0"
  by (simp add: fl_def)

lemma fl_9_2: "fl (9 / 2) = 9 / 2"
  using fl_pos [of 2 "9 / 2"] by (simp add: pow2_def round_even_def floor_numeral_div Let_def)

lemma fl_43_40: "fl (43 / 40) = 4841369599423283 / 4503599627370496"
  using fl_pos [of 0 "43 / 40"] by (simp add: pow2_def round_even_def floor_numeral_div Let_def)

lemma fl_107_100: "fl (107 / 100) = 4818851601286431 / 4503599627370496"
  using fl_pos [of 0 "107 / 100"] by (simp add: pow2_def round_even_def floor_numeral_div Let_def)

lemma fl_27_25: "fl (27 / 25) = 607985949695017 / 562949953421312"
  using fl_pos [of 0 "27 / 25"] by (simp add: pow2_def round_even_def floor_numeral_div Let_def)

text \<open>Below 1 as well: the double of one tenth.\<close>

lemma bitlen_9: "bitlen 9 = 4"
  using bitlen_eq [of 3 9] by simp

lemma fl_tenth: "fl (1 / 10) = 3602879701896397 / 36028797018963968"
  by (simp add: fl_def ilog2_def bitlen_9 pow2_def round_even_def floor_numeral_div Let_def)

lemma averageRating_5_4: "averageRating [5, 4] = Some (9 / 2)"
  by (simp add: averageRating_def js_add_def js_div_def fl_numeral fl_9_2 parseFloat_toFixed2_def
      toFixed2_def floor_numeral_div)

lemma tie_sum:
  "foldl (\<lambda>acc curr. js_add acc (of_int curr)) 0 (replicate 37 1 @ replicate 3 2) = 43"
  using ratings_sum_exact [of "replicate 37 1 @ replicate 3 2" 0]
  by (simp add: list_all_iff sum_list_replicate del: foldl_append)

lemma averageRating_tie:
  "averageRating (replicate 37 1 @ replicate 3 2) = Some (4818851601286431 / 4503599627370496)"
  by (simp add: averageRating_def tie_sum js_div_def fl_43_40 parseFloat_toFixed2_def
      toFixed2_def fl_107_100 floor_numeral_div del: foldl_append)


text \<open>
  Seven ratings of 1 and one of 2 have the mean 1.125, which is a double: the half is
  rounded upwards, to 1.13.
\<close>

lemma fl_1: "fl 1 = 1"
  using fl_of_int [of 1] by simp

lemma fl_9_8: "fl (9 / 8) = 9 / 8"
  using fl_pos [of 0 "9 / 8"] by (simp add: pow2_def round_even_def floor_numeral_div Let_def)

lemma averageRating_half_up:
  "mean [1, 1, 1, 1, 1, 1, 1, 2] = 9 / 8"
  "round2 (mean [1, 1, 1, 1, 1, 1, 1, 2]) = 113 / 100"
  "averageRating [1, 1, 1, 1, 1, 1, 1, 2] = Some (fl (113 / 100))"
  by (simp_all add: mean_def round2_def averageRating_def js_add_def js_div_def fl_1 fl_numeral
      fl_9_8 parseFloat_toFixed2_def toFixed2_def floor_numeral_div)

text \<open>
  C4, as stated, fails. Forty reviews of one item, thirty-seven rated 1 and three rated 2,
  have the mean 43/40 = 1.075, which rounded to two decimal places is 1.08 (a half
  upwards, and to the even neighbour alike). The double for 43/40 lies below 1.075, so
  \<open>toFixed(2)\<close> prints 1.07, and the route reports the double for 1.07.
\<close>

theorem average_rounding_counterexample:
  "mean (replicate 37 1 @ replicate 3 2) = 43 / 40
   \<and> spec_averageRating (replicate 37 1 @ replicate 3 2) = Some (27 / 25)
   \<and> of_int (round_even (100 * mean (replicate 37 1 @ replicate 3 2))) / 100 = (27 / 25 :: rat)
   \<and> averageRating (replicate 37 1 @ replicate 3 2) = Some (fl (107 / 100))
   \<and> fl (107 / 100) = 4818851601286431 / 4503599627370496
   \<and> fl (27 / 25) = 607985949695017 / 562949953421312
   \<and> averageRating (replicate 37 1 @ replicate 3 2)
       \<noteq> map_option fl (spec_averageRating (replicate 37 1 @ replicate 3 2))"
proof -
  have m: "mean (replicate 37 1 @ replicate 3 2) = 43 / 40"
    by (simp add: mean_def sum_list_replicate)
  have s: "spec_averageRating (replicate 37 1 @ replicate 3 2) = Some (27 / 25)"
    by (simp add: spec_averageRating_def m round2_def floor_numeral_div)
  have e: "round_even (215 / 2) = 108"
    by (simp add: round_even_def floor_numeral_div Let_def)
  show ?thesis
    by (simp add: m s e averageRating_tie fl_107_100 fl_27_25)
qed

lemma items_get_average:
  assumes "items_get e req d = (Response 200 (ItemsPage p l outs), d')" and "out \<in> set outs"
  shows "o_averageRating out = averageRating (item_ratings d (o_id out))"
proof -
  obtain search category page limit rows where
    rows: "item_findMany d (items_where search category) (js_mul (js_sub page 1) limit) limit
             = Inr rows"
    and outs: "outs = map (\<lambda>(x, ratings).
                            \<lparr>o_id = i_id x, o_name = i_name x, o_description = i_description x,
                             o_category = i_category x, o_createdAt = i_createdAt x,
                             o_averageRating = averageRating ratings\<rparr>) rows"
    using assms(1) by (auto simp add: items_get_def split: sum.splits prod.splits)
  obtain x ratings where
    x: "(x, ratings) \<in> set rows"
    and out: "out = \<lparr>o_id = i_id x, o_name = i_name x, o_description = i_description x,
                      o_category = i_category x, o_createdAt = i_createdAt x,
                      o_averageRating = averageRating ratings\<rparr>"
    using assms(2) outs by auto
  have "ratings = item_ratings d (i_id x)"
    using rows x by (auto simp add: item_findMany_def item_ratings_def split: sum.splits)
  then show ?thesis
    by (simp add: out)
qed

lemma item_ratings_bounds:
  assumes "list_all (\<lambda>r. 1 \<le> r_rating r \<and> r_rating r \<le> 5) (reviews d)"
    and "length (reviews d) < 2 ^ 31"
  shows "list_all (\<lambda>r. 1 \<le> r \<and> r \<le> 5) (item_ratings d i)"
    and "length (item_ratings d i) < 2 ^ 31"
proof -
  show "list_all (\<lambda>r. 1 \<le> r \<and> r \<le> 5) (item_ratings d i)"
    using assms(1) by (auto simp add: item_ratings_def list_all_iff)
  have "length (item_ratings d i) \<le> length (reviews d)"
    by (simp add: item_ratings_def)
  with assms(2) show "length (item_ratings d i) < 2 ^ 31"
    by linarith
qed

text \<open>
  C4, amended. For every item that the list route returns, where the stored ratings are
  integers from 1 to 5 and fewer than \<open>2^31\<close> reviews are stored: \<open>averageRating\<close> is null
  exactly when the item has no review; otherwise it is the double nearest to the value of
  two decimal places got by rounding, a half upwards, the double nearest to the mean of
  the item's ratings. That value lies within 0.005 of the mean, and it is the mean rounded
  to two decimal places, a half upwards, except when the mean lies halfway between two
  such values and its double lies below it: then it is the lower of the two. For the
  ratings 5 and 4 the average is 4.5 exactly.
\<close>

theorem average_of_listed_item:
  assumes "items_get e req d = (Response 200 (ItemsPage p l outs), d')"
    and "out \<in> set outs"
    and "list_all (\<lambda>r. 1 \<le> r_rating r \<and> r_rating r \<le> 5) (reviews d)"
    and "length (reviews d) < 2 ^ 31"
  shows
    "(o_averageRating out = None \<longleftrightarrow> item_ratings d (o_id out) = [])
     \<and> (item_ratings d (o_id out) \<noteq> []
        \<longrightarrow> o_averageRating out
              = Some (fl (of_int \<lfloor>100 * fl (mean (item_ratings d (o_id out))) + 1 / 2\<rfloor> / 100))
          \<and> (of_int \<lfloor>100 * fl (mean (item_ratings d (o_id out))) + 1 / 2\<rfloor> :: rat) / 100
              = (if is_int (100 * mean (item_ratings d (o_id out)) + 1 / 2)
                    \<and> fl (mean (item_ratings d (o_id out))) < mean (item_ratings d (o_id out))
                 then round2 (mean (item_ratings d (o_id out))) - 1 / 100
                 else round2 (mean (item_ratings d (o_id out))))
          \<and> \<bar>(of_int \<lfloor>100 * fl (mean (item_ratings d (o_id out))) + 1 / 2\<rfloor> :: rat) / 100
                - mean (item_ratings d (o_id out))\<bar> \<le> 1 / 200)
     \<and> (item_ratings d (o_id out) = [5, 4] \<longrightarrow> o_averageRating out = Some (9 / 2))"
proof -
  let ?rs = "item_ratings d (o_id out)"
  have avg: "o_averageRating out = averageRating ?rs"
    using assms(1,2) by (rule items_get_average)
  note b = item_ratings_bounds [OF assms(3,4), of "o_id out"]
  have "averageRating ?rs \<noteq> None" if "?rs \<noteq> []"
    using averageRating_exact(1) [OF b(1) that b(2)] by simp
  then have null: "averageRating ?rs = None \<longleftrightarrow> ?rs = []"
    using averageRating_Nil by (cases "?rs = []") auto
  have five: "?rs = [5, 4] \<longrightarrow> averageRating ?rs = Some (9 / 2)"
    by (simp add: averageRating_5_4)
  have some: "?rs \<noteq> []
        \<longrightarrow> averageRating ?rs = Some (fl (of_int \<lfloor>100 * fl (mean ?rs) + 1 / 2\<rfloor> / 100))
          \<and> (of_int \<lfloor>100 * fl (mean ?rs) + 1 / 2\<rfloor> :: rat) / 100
              = (if is_int (100 * mean ?rs + 1 / 2) \<and> fl (mean ?rs) < mean ?rs
                 then round2 (mean ?rs) - 1 / 100 else round2 (mean ?rs))
          \<and> \<bar>(of_int \<lfloor>100 * fl (mean ?rs) + 1 / 2\<rfloor> :: rat) / 100 - mean ?rs\<bar> \<le> 1 / 200"
  proof
    assume ne: "?rs \<noteq> []"
    note ex = averageRating_exact [OF b(1) ne b(2)]
    show "averageRating ?rs = Some (fl (of_int \<lfloor>100 * fl (mean ?rs) + 1 / 2\<rfloor> / 100))
          \<and> (of_int \<lfloor>100 * fl (mean ?rs) + 1 / 2\<rfloor> :: rat) / 100
              = (if is_int (100 * mean ?rs + 1 / 2) \<and> fl (mean ?rs) < mean ?rs
                 then round2 (mean ?rs) - 1 / 100 else round2 (mean ?rs))
          \<and> \<bar>(of_int \<lfloor>100 * fl (mean ?rs) + 1 / 2\<rfloor> :: rat) / 100 - mean ?rs\<bar> \<le> 1 / 200"
      by (rule conjI [OF ex(1) conjI [OF ex(2) ex(3)]])
  qed
  show ?thesis
    unfolding avg by (rule conjI [OF null conjI [OF some five]])
qed

lemma querySchema_empty: "querySchema (JObj []) = Inr (None, None, 1, 10)"
  by (simp add: querySchema_def z_optional_def z_default_def refine_def is_int_def)

lemma window_first_10: "window 0 10 rows = Inr (take 10 rows)"
  by (simp add: window_def prisma_Int64_def trunc_def)

lemma seed_ratings: "item_ratings seed_db 1 = [5, 4]" "item_ratings seed_db 2 = []"
  by (simp_all add: item_ratings_def seed_tables seed_ids seed_times)

lemma items_get_seed:
  "items_get test_env (test_request [] [] JNull) seed_db
     = (Response 200
          (ItemsPage 1 10
             [\<lparr>o_id = 1, o_name = ''Test Item 1'',
               o_description = Some ''Description for Test Item 1'',
               o_category = Some ''Category A'', o_createdAt = 3, o_averageRating = Some (9 / 2)\<rparr>,
              \<lparr>o_id = 2, o_name = ''Test Item 2'',
               o_description = Some ''Description for Test Item 2'',
               o_category = Some ''Category B'', o_createdAt = 4, o_averageRating = None\<rparr>]),
        seed_db)"
  by (simp add: items_get_def test_request_simps querySchema_empty js_sub_def js_mul_def fl_0
      item_findMany_def window_first_10 items_where_def seed_tables seed_ids seed_times
      averageRating_5_4 averageRating_Nil)
    (simp add: item1_def item2_def)

lemma seed_mean:
  "mean [5, 4] = 9 / 2" "\<not> is_int (100 * mean [5, 4] + 1 / 2)" "round2 (mean [5, 4]) = 9 / 2"
  by (simp_all add: mean_def is_int_def round2_def floor_numeral_div)

theorem average_of_listed_item_witness:
  "items_get test_env (test_request [] [] JNull) seed_db
     = (Response 200
          (ItemsPage 1 10
             [\<lparr>o_id = 1, o_name = ''Test Item 1'',
               o_description = Some ''Description for Test Item 1'',
               o_category = Some ''Category A'', o_createdAt = 3, o_averageRating = Some (9 / 2)\<rparr>,
              \<lparr>o_id = 2, o_name = ''Test Item 2'',
               o_description = Some ''Description for Test Item 2'',
               o_category = Some ''Category B'', o_createdAt = 4, o_averageRating = None\<rparr>]),
        seed_db)
   \<and> list_all (\<lambda>r. 1 \<le> r_rating r \<and> r_rating r \<le> 5) (reviews seed_db)
   \<and> length (reviews seed_db) < 2 ^ 31
   \<and> item_ratings seed_db 1 = [5, 4]
   \<and> item_ratings seed_db 2 = []
   \<and> \<not> is_int (100 * mean (item_ratings seed_db 1) + 1 / 2)
   \<and> Some (9 / 2 :: rat)
       = Some (fl (of_int \<lfloor>100 * fl (mean (item_ratings seed_db 1)) + 1 / 2\<rfloor> / 100))
   \<and> (of_int \<lfloor>100 * fl (mean (item_ratings seed_db 1)) + 1 / 2\<rfloor> :: rat) / 100
       = round2 (mean (item_ratings seed_db 1))
   \<and> \<bar>(of_int \<lfloor>100 * fl (mean (item_ratings seed_db 1)) + 1 / 2\<rfloor> :: rat) / 100
         - mean (item_ratings seed_db 1)\<bar> \<le> 1 / 200"
  using
    average_of_listed_item [OF items_get_seed, where out =
      "\<lparr>o_id = 1, o_name = ''Test Item 1'',
        o_description = Some ''Description for Test Item 1'',
        o_category = Some ''Category A'', o_createdAt = 3, o_averageRating = Some (9 / 2)\<rparr>"]
    average_of_listed_item [OF items_get_seed, where out =
      "\<lparr>o_id = 2, o_name = ''Test Item 2'',
        o_description = Some ''Description for Test Item 2'',
        o_category = Some ''Category B'', o_createdAt = 4, o_averageRating = None\<rparr>"]
  by (simp add: items_get_seed seed_ratings seed_tables seed_times seed_mean fl_9_2 is_int_def
      round2_def floor_numeral_div)

section \<open>The search filter\<close>

text \<open>
  The search text is a pattern: \<open>_\<close> and \<open>%\<close> in it match other characters, unless a
  backslash stands before them.
\<close>

lemma contains_insensitive_examples:
  "contains_insensitive ''Test Item 1'' ''item''"
  "contains_insensitive ''Test Item 1'' ''_''"
  "contains_insensitive ''Test Item 1'' ''t%1''"
  "contains_insensitive ''Test Item 1'' ''T__t''"
  "\<not> contains_insensitive ''Test Item 1'' ''items''"
  "\<not> contains_insensitive ''Test Item 1'' [CHR 0x5C, CHR ''_'']"
  "contains_insensitive ''50%_off'' [CHR 0x5C, CHR ''%'', CHR 0x5C, CHR ''_'']"
  "\<not> contains_insensitive [] ''_''"
  by (simp_all add: contains_insensitive_def lower_def char_of_def bit_Suc_0_iff)

section \<open>Pagination\<close>

lemma Number_digits_small:
  assumes "0 \<le> digits_val (units s)" and "digits_val (units s) < 2 ^ 53"
  shows "Number_digits s = Some (of_int (digits_val (units s)))"
proof -
  have "(of_int (digits_val (units s)) :: rat) < of_int (2 ^ 53)"
    using assms(2) by (simp only: of_int_less_iff)
  also have "\<dots> < 2 ^ 1024 - 2 ^ 970"
    by simp
  finally show ?thesis
    using assms by (simp add: Number_digits_def fl_of_int)
qed

lemma skip_exact:
  assumes "1 \<le> p" and "0 \<le> l" and "(p - 1) * l < 2 ^ 53" and "p < 2 ^ 53"
  shows "js_mul (js_sub (of_int p) 1) (of_int l) = of_int ((p - 1) * l)"
proof -
  have "js_sub (of_int p) 1 = fl (of_int (p - 1))"
    by (simp add: js_sub_def)
  also have "\<dots> = of_int (p - 1)"
    using assms(1,4) by (intro fl_of_int) simp_all
  finally have sub: "js_sub (of_int p) 1 = of_int (p - 1)" .
  have "js_mul (of_int (p - 1)) (of_int l) = fl (of_int ((p - 1) * l))"
    by (simp add: js_mul_def)
  also have "\<dots> = of_int ((p - 1) * l)"
    using assms(1,2,3) by (intro fl_of_int) simp_all
  finally show ?thesis
    by (simp add: sub)
qed

lemma window_exact:
  assumes "0 \<le> sk" and "sk < 2 ^ 63" and "0 \<le> n" and "n < 2 ^ 63"
  shows "window (of_int sk) (of_int n) rows = Inr (take (nat n) (drop (nat sk) rows))"
  using assms by (simp add: window_def prisma_Int64_of_int)

lemma comments_get_page:
  assumes "getCommentsSchema (query req) = Inr (rid, Some (of_int p), Some (of_int l))"
    and "parseInt (units rid) = Some i"
    and "review_findUnique d (of_int i) = Inr (Some r)"
    and "1 \<le> p" and "p < 2 ^ 53" and "0 \<le> l" and "l < 2 ^ 53" and "(p - 1) * l < 2 ^ 53"
  shows "comments_get e req d
    = (Response 200
         (CommentsPage (of_int p) (of_int l)
            (map (\<lambda>c. (c, user_ref d (c_userId c)))
               (take (nat l) (drop (nat ((p - 1) * l))
                  (sort_key c_createdAt (filter (\<lambda>c. c_reviewId c = i) (comments d))))))),
       d)"
proof -
  have id: "prisma_Int (of_int i) = Inr i"
    using assms(3)
    by (auto simp add: review_findUnique_def prisma_Int_def trunc_of_int split: sum.splits if_splits)
  have "0 \<le> (p - 1) * l"
    using assms(4,6) by simp
  then have w: "window (of_int ((p - 1) * l)) (of_int l) rows
      = Inr (take (nat l) (drop (nat ((p - 1) * l)) rows))" for rows :: "comment list"
    using assms(6,7,8) by (intro window_exact) simp_all
  have w': "window ((of_int p - 1) * of_int l) (of_int l) rows
      = Inr (take (nat l) (drop (nat ((p - 1) * l)) rows))" for rows :: "comment list"
    using w [of rows] by simp
  show ?thesis
    using assms(1,2,3)
    by (simp add: comments_get_def skip_exact [OF assms(4,6,8,5)] comment_findMany_def id w')
qed

lemma getCommentsSchema_test:
  "getCommentsSchema (JObj [(''reviewId'', JStr ''1''), (''page'', JStr ''2''), (''limit'', JStr ''10'')])
     = Inr (''1'', Some 2, Some 10)"
  "getCommentsSchema (JObj [(''reviewId'', JStr ''1'')]) = Inr (''1'', Some 1, Some 10)"
proof -
  have n: "Number_digits ''1'' = Some 1" "Number_digits ''2'' = Some 2" "Number_digits ''10'' = Some 10"
    using Number_digits_small [of "''1''"] Number_digits_small [of "''2''"]
      Number_digits_small [of "''10''"]
    by (simp_all add: digits_val_def digit_val_def units_def)
  show "getCommentsSchema (JObj [(''reviewId'', JStr ''1''), (''page'', JStr ''2''), (''limit'', JStr ''10'')])
     = Inr (''1'', Some 2, Some 10)"
    "getCommentsSchema (JObj [(''reviewId'', JStr ''1'')]) = Inr (''1'', Some 1, Some 10)"
    by (simp_all add: getCommentsSchema_def z_default_def refine_def is_digits_def is_digit_def units_def n)
qed

text \<open>A \<open>limit\<close> beyond 32 bits is passed as \<open>take\<close> and accepted.\<close>

lemma Number_digits_large: "Number_digits ''99999999999'' = Some 99999999999"
  using Number_digits_small [of "''99999999999''"]
  by (simp add: digits_val_def digit_val_def units_def)

lemma getCommentsSchema_large:
  "getCommentsSchema (JObj [(''reviewId'', JStr ''1''), (''limit'', JStr ''99999999999'')])
     = Inr (''1'', Some 1, Some 99999999999)"
proof -
  have n: "Number_digits ''1'' = Some 1"
    using Number_digits_small [of "''1''"] by (simp add: digits_val_def digit_val_def units_def)
  show ?thesis
    by (simp add: getCommentsSchema_def z_default_def refine_def is_digits_def is_digit_def
        units_def n Number_digits_large)
qed

lemma comments_get_large_limit:
  "comments_get test_env
      (test_request [] [] JNull\<lparr>query := JObj [(''reviewId'', JStr ''1''),
         (''limit'', JStr ''99999999999'')]\<rparr>) seed_db
     = (Response 200 (CommentsPage 1 99999999999 [(comment1, Some (2, ''testuser2''))]), seed_db)"
  using comments_get_page [where e = test_env and d = seed_db and p = 1 and l = 99999999999
      and i = 1 and rid = "''1''" and r = review1
      and req = "test_request [] [] JNull\<lparr>query := JObj [(''reviewId'', JStr ''1''),
        (''limit'', JStr ''99999999999'')]\<rparr>"]
  by (simp add: test_request_def getCommentsSchema_large parseInt_digits seed_lookups
      seed_tables seed_ids seed_user_ref)

text \<open>
  C9. The list route of the items declares \<open>page\<close> and \<open>limit\<close> as \<open>z.number()\<close>, and a
  query string gives strings: a request with \<open>page=2&limit=10\<close> is answered 400 with an
  issue for each of the two. The list route of the comments, which reads the digits of a
  string, answers the same parameters with 200 and the second page (here empty) of the
  comments of the review, and the request without them with page 1 of at most 10.
\<close>

theorem items_page_2_is_400:
  "items_get test_env
      (test_request [] [] JNull\<lparr>query := JObj [(''page'', JStr ''2''), (''limit'', JStr ''10'')]\<rparr>)
      seed_db
     = (Response 400 (ZodErrors [Issue [''page''], Issue [''limit'']]), seed_db)
   \<and> comments_get test_env
      (test_request [] [] JNull\<lparr>query := JObj [(''reviewId'', JStr ''1''), (''page'', JStr ''2''),
         (''limit'', JStr ''10'')]\<rparr>) seed_db
     = (Response 200 (CommentsPage 2 10 []), seed_db)
   \<and> comments_get test_env
      (test_request [] [] JNull\<lparr>query := JObj [(''reviewId'', JStr ''1'')]\<rparr>) seed_db
     = (Response 200 (CommentsPage 1 10 [(comment1, Some (2, ''testuser2''))]), seed_db)"
proof -
  have a: "items_get test_env
      (test_request [] [] JNull\<lparr>query := JObj [(''page'', JStr ''2''), (''limit'', JStr ''10'')]\<rparr>)
      seed_db
     = (Response 400 (ZodErrors [Issue [''page''], Issue [''limit'']]), seed_db)"
    by (simp add: items_get_def test_request_def querySchema_def z_optional_def z_default_def
        refine_def chk_def)
  have b: "comments_get test_env
      (test_request [] [] JNull\<lparr>query := JObj [(''reviewId'', JStr ''1''), (''page'', JStr ''2''),
         (''limit'', JStr ''10'')]\<rparr>) seed_db
     = (Response 200 (CommentsPage 2 10 []), seed_db)"
    using comments_get_page [where e = test_env and d = seed_db and p = 2 and l = 10 and i = 1
        and rid = "''1''" and r = review1
        and req = "test_request [] [] JNull\<lparr>query := JObj [(''reviewId'', JStr ''1''),
          (''page'', JStr ''2''), (''limit'', JStr ''10'')]\<rparr>"]
    by (simp add: test_request_def getCommentsSchema_test parseInt_digits seed_lookups
        seed_tables seed_ids)
  have c: "comments_get test_env
      (test_request [] [] JNull\<lparr>query := JObj [(''reviewId'', JStr ''1'')]\<rparr>) seed_db
     = (Response 200 (CommentsPage 1 10 [(comment1, Some (2, ''testuser2''))]), seed_db)"
    using comments_get_page [where e = test_env and d = seed_db and p = 1 and l = 10 and i = 1
        and rid = "''1''" and r = review1
        and req = "test_request [] [] JNull\<lparr>query := JObj [(''reviewId'', JStr ''1'')]\<rparr>"]
    by (simp add: test_request_def getCommentsSchema_test parseInt_digits seed_lookups
        seed_tables seed_ids seed_user_ref)
  show ?thesis
    using a b c by simp
qed

end
